theory Spec2Isabelle
  imports Complex_Main
begin

section \<open>Rendering of integers, dates and instants\<close>

text \<open>
  The converter builds identifiers and stored columns with Python's \<open>str\<close>,
  \<open>strftime\<close> and \<open>isoformat\<close>. Instants are naive (no time zone) and
  are counted in whole seconds since 1970-01-01T00:00:00, the cadence of the feed being a
  quarter of an hour; a calendar date is a count of days since 1970-01-01. The years of
  a pandas Timestamp (1677 to 2262) have four digits. Prices, quantities and
  probabilities are exact reals: rounding of binary floating point is not part of this
  development. The recency weights, where \<open>np.exp\<close> can leave the range of binary64,
  are values with infinities and NaN (section on the arithmetic of the weights).
\<close>

definition digit_char :: "nat \<Rightarrow> char" where
  "digit_char d = ''0123456789'' ! d"

fun str_nat :: "nat \<Rightarrow> string" where
  "str_nat n = (if n < 10 then [digit_char n] else str_nat (n div 10) @ [digit_char (n mod 10)])"

declare str_nat.simps [simp del]

definition str_int :: "int \<Rightarrow> string" where
  \<comment> \<open>Python \<open>str(i)\<close> of an integer.\<close>
  "str_int i = (if i < 0 then CHR ''-'' # str_nat (nat (- i)) else str_nat (nat i))"

definition zfill :: "nat \<Rightarrow> string \<Rightarrow> string" where
  \<comment> \<open>Left padding with zeros to a width, as \<open>%02d\<close> does.\<close>
  "zfill w s = replicate (w - length s) CHR ''0'' @ s"

definition civil_from_days :: "int \<Rightarrow> int \<times> int \<times> int" where
  \<comment> \<open>Year, month and day of the proleptic Gregorian calendar for a day count.\<close>
  "civil_from_days z0 =
     (let z = z0 + 719468;
          era = z div 146097;
          doe = z - era * 146097;
          yoe = (doe - doe div 1460 + doe div 36524 - doe div 146096) div 365;
          y = yoe + era * 400;
          doy = doe - (365 * yoe + yoe div 4 - yoe div 100);
          mp = (5 * doy + 2) div 153;
          d = doy - (153 * mp + 2) div 5 + 1;
          m = (if mp < 10 then mp + 3 else mp - 9)
      in (if m \<le> 2 then y + 1 else y, m, d))"

definition timedelta :: "int \<Rightarrow> int \<Rightarrow> int" where
  \<comment> \<open>\<open>timedelta(days=d, hours=h)\<close> in seconds.\<close>
  "timedelta days hours = days * 86400 + hours * 3600"

definition date_isoformat :: "int \<Rightarrow> string" where
  \<comment> \<open>\<open>date.isoformat()\<close>: YYYY-MM-DD.\<close>
  "date_isoformat dn =
     (case civil_from_days dn of (y, m, d) \<Rightarrow>
        zfill 4 (str_int y) @ ''-'' @ zfill 2 (str_int m) @ ''-'' @ zfill 2 (str_int d))"

definition strftime :: "int \<Rightarrow> string" where
  \<comment> \<open>\<open>ts.strftime('%Y%m%d_%H%M%S')\<close>.\<close>
  "strftime ts =
     (case civil_from_days (ts div 86400) of (y, m, d) \<Rightarrow>
        (let s = ts mod 86400 in
           zfill 4 (str_int y) @ zfill 2 (str_int m) @ zfill 2 (str_int d) @ ''_'' @
           zfill 2 (str_int (s div 3600)) @ zfill 2 (str_int (s mod 3600 div 60)) @
           zfill 2 (str_int (s mod 60))))"

definition isoformat :: "int \<Rightarrow> string" where
  \<comment> \<open>\<open>ts.isoformat()\<close> of an instant with no fraction of a second: YYYY-MM-DDTHH:MM:SS.\<close>
  "isoformat ts =
     (let s = ts mod 86400 in
        date_isoformat (ts div 86400) @ ''T'' @ zfill 2 (str_int (s div 3600)) @ '':'' @
        zfill 2 (str_int (s mod 3600 div 60)) @ '':'' @ zfill 2 (str_int (s mod 60)))"

fun contains :: "string \<Rightarrow> string \<Rightarrow> bool" where
  \<comment> \<open>Python's \<open>sub in s\<close> on strings.\<close>
  "contains sub [] = (sub = [])"
| "contains sub (c # cs) = (take (length sub) (c # cs) = sub \<or> contains sub cs)"

section \<open>Data model\<close>

text \<open>
  A row of the feature table (\<open>df_ml\<close>): the columns the walk-forward loop and the
  converter read by name, and the remaining 26 columns of \<open>feature_columns\<close>, in
  their order, as \<open>other_features\<close> (\<open>hour\<close> is the first feature column).
\<close>

record feature_row =
  timestamp :: int
  date :: int
  hour :: int
  da_price :: real
  id_price_h :: real
  spread :: real
  other_features :: "real list"

text \<open>A row of \<open>results_df\<close>: a feature row with the columns \<open>signal\<close> and \<open>prob\<close> added.\<close>

record scored_row = feature_row +
  signal :: int
  prob :: real

text \<open>A row of the table \<open>trades\<close>; \<open>exec_timestamp\<close> is its column \<open>timestamp\<close>.\<close>

record trade =
  trade_id :: string
  trader_id :: string
  delivery_day :: string
  delivery_hour :: int
  quantity :: real
  price :: real
  side :: string
  strategy :: string
  exec_timestamp :: string

datatype error =
    FileNotFoundError
  | KeyError int
  | ValueError
  | TypeError
  | IntegrityError_unique string
  | IntegrityError_check string

section \<open>Signal conversion (convert\_trades.py)\<close>

definition position_size :: real where
  "position_size = 100"

definition row_trades :: "string \<Rightarrow> int \<Rightarrow> scored_row \<Rightarrow> trade list" where
  \<comment> \<open>The body of the loop over \<open>df_trades.iterrows()\<close>: the trades appended for the
      row with index label \<open>idx\<close>.\<close>
  "row_trades strategy_name idx row =
     (let delivery_day = date row;
          delivery_hour = hour row;
          ts = timestamp row;
          sig = signal row;
          da_price = da_price row;
          id_price = id_price_h row;
          trade_timestamp = ts - timedelta 1 0
      in
        if sig = 1 then
          [ \<lparr> trade_id = ''ML_DA_'' @ strftime trade_timestamp @ ''_'' @ str_int idx @ ''_BUY'',
              trader_id = ''strategy_ml_daily'',
              delivery_day = date_isoformat delivery_day,
              delivery_hour = delivery_hour,
              quantity = position_size,
              price = da_price,
              side = ''buy'',
              strategy = strategy_name,
              exec_timestamp = isoformat trade_timestamp \<rparr>,
            \<lparr> trade_id = ''ML_ID_'' @ strftime trade_timestamp @ ''_'' @ str_int idx @ ''_SELL'',
              trader_id = ''strategy_ml_daily'',
              delivery_day = date_isoformat delivery_day,
              delivery_hour = delivery_hour,
              quantity = position_size,
              price = id_price,
              side = ''sell'',
              strategy = strategy_name,
              exec_timestamp = isoformat (trade_timestamp + timedelta 0 2) \<rparr> ]
        else if sig = - 1 then
          [ \<lparr> trade_id = ''ML_DA_'' @ strftime trade_timestamp @ ''_'' @ str_int idx @ ''_SELL'',
              trader_id = ''strategy_ml_daily'',
              delivery_day = date_isoformat delivery_day,
              delivery_hour = delivery_hour,
              quantity = position_size,
              price = da_price,
              side = ''sell'',
              strategy = strategy_name,
              exec_timestamp = isoformat trade_timestamp \<rparr>,
            \<lparr> trade_id = ''ML_ID_'' @ strftime trade_timestamp @ ''_'' @ str_int idx @ ''_BUY'',
              trader_id = ''strategy_ml_daily'',
              delivery_day = date_isoformat delivery_day,
              delivery_hour = delivery_hour,
              quantity = position_size,
              price = id_price,
              side = ''buy'',
              strategy = strategy_name,
              exec_timestamp = isoformat (trade_timestamp + timedelta 0 2) \<rparr> ]
        else [])"

definition convert_to_trades :: "string \<Rightarrow> (int \<times> scored_row) list \<Rightarrow> trade list" where
  \<comment> \<open>\<open>df_results\<close> is the list of its rows, each with its index label; rows with
      \<open>signal = 0\<close> are filtered out before the loop.\<close>
  "convert_to_trades strategy_name df_results =
     (let df_trades = filter (\<lambda>(idx, row). signal row \<noteq> 0) df_results
      in concat (map (\<lambda>(idx, row). row_trades strategy_name idx row) df_trades))"

section \<open>The trade store (insert\_trades\_to\_db)\<close>

definition check_constraints :: "trade \<Rightarrow> bool" where
  \<comment> \<open>The two CHECK constraints of the table \<open>trades\<close>.\<close>
  "check_constraints t =
     ((side t = ''buy'' \<or> side t = ''sell'') \<and> 0 \<le> delivery_hour t \<and> delivery_hour t \<le> 23)"

fun insert_rows :: "trade list \<Rightarrow> trade list \<Rightarrow> error + trade list" where
  \<comment> \<open>The loop of INSERT statements: the CHECK constraints of the row, then the primary
      key \<open>trade_id\<close>.\<close>
  "insert_rows tbl [] = Inr tbl"
| "insert_rows tbl (t # ts) =
     (if \<not> check_constraints t then Inl (IntegrityError_check (trade_id t))
      else if trade_id t \<in> set (map trade_id tbl) then Inl (IntegrityError_unique (trade_id t))
      else insert_rows (tbl @ [t]) ts)"

definition insert_trades_to_db :: "trade list \<Rightarrow> trade list \<Rightarrow> trade list \<times> (error + nat)" where
  \<comment> \<open>The table after the call and the outcome. An exception of an INSERT leaves the
      transaction uncommitted; the statistics printed after the commit format
      \<open>SUM(...)\<close>, which is NULL on an empty table.\<close>
  "insert_trades_to_db tbl trades =
     (case insert_rows tbl trades of
        Inl e \<Rightarrow> (tbl, Inl e)
      | Inr tbl' \<Rightarrow> (tbl', if tbl' = [] then Inl TypeError else Inr (length tbl')))"

section \<open>Hourly PnL (task3\_report.py) and strategy PnL (task1.py)\<close>

record hour_data =
  num_trades :: nat
  buy_da_mw :: real
  sell_da_mw :: real
  buy_ida_mw :: real
  sell_ida_mw :: real
  pnl_eur :: real

definition empty_hour :: hour_data where
  "empty_hour = \<lparr> num_trades = 0, buy_da_mw = 0, sell_da_mw = 0, buy_ida_mw = 0,
                   sell_ida_mw = 0, pnl_eur = 0 \<rparr>"

definition initial_hourly_data :: "int \<rightharpoonup> hour_data" where
  \<comment> \<open>\<open>for hour in range(24): hourly_data[hour] = {...}\<close>\<close>
  "initial_hourly_data = fold (\<lambda>hour m. m(int hour \<mapsto> empty_hour)) [0..<24] Map.empty"

definition add_trade :: "hour_data \<Rightarrow> trade \<Rightarrow> hour_data" where
  \<comment> \<open>The updates of \<open>hour_data\<close> for one fetched row.\<close>
  "add_trade hour_data t =
     (let h = hour_data\<lparr> num_trades := num_trades hour_data + 1 \<rparr>;
          is_da = contains ''_DA_'' (trade_id t);
          is_ida = contains ''_ID_'' (trade_id t)
      in
        if side t = ''buy'' then
          (let h = (if is_da then h\<lparr> buy_da_mw := buy_da_mw h + quantity t \<rparr>
                    else if is_ida then h\<lparr> buy_ida_mw := buy_ida_mw h + quantity t \<rparr>
                    else h)
           in h\<lparr> pnl_eur := pnl_eur h - quantity t * price t \<rparr>)
        else
          (let h = (if is_da then h\<lparr> sell_da_mw := sell_da_mw h + quantity t \<rparr>
                    else if is_ida then h\<lparr> sell_ida_mw := sell_ida_mw h + quantity t \<rparr>
                    else h)
           in h\<lparr> pnl_eur := pnl_eur h + quantity t * price t \<rparr>))"

fun process_trades :: "(int \<rightharpoonup> hour_data) \<Rightarrow> trade list \<Rightarrow> error + (int \<rightharpoonup> hour_data)" where
  \<comment> \<open>The loop over \<open>cursor.fetchall()\<close>; \<open>hourly_data[delivery_hour]\<close> raises KeyError
      on an hour that is not a key.\<close>
  "process_trades hourly_data [] = Inr hourly_data"
| "process_trades hourly_data (t # ts) =
     (case hourly_data (delivery_hour t) of
        None \<Rightarrow> Inl (KeyError (delivery_hour t))
      | Some hour_data \<Rightarrow>
          process_trades (hourly_data(delivery_hour t \<mapsto> add_trade hour_data t)) ts)"

definition query_trades :: "trade list \<Rightarrow> string \<Rightarrow> string \<Rightarrow> trade list" where
  \<comment> \<open>\<open>WHERE trader_id = ? AND delivery_day = ? ORDER BY delivery_hour\<close>; rows of one
      hour are kept in the order of the table.\<close>
  "query_trades tbl trader day =
     sort_key delivery_hour (filter (\<lambda>t. trader_id t = trader \<and> delivery_day t = day) tbl)"

definition compute_hourly_pnl ::
  "trade list option \<Rightarrow> string \<Rightarrow> int \<Rightarrow> error + (int \<rightharpoonup> hour_data)" where
  \<comment> \<open>The store is \<open>None\<close> when the database file does not exist.\<close>
  "compute_hourly_pnl db trader day =
     (case db of
        None \<Rightarrow> Inl FileNotFoundError
      | Some tbl \<Rightarrow>
          process_trades initial_hourly_data
            (query_trades tbl trader (date_isoformat day)))"

definition compute_pnl :: "trade list option \<Rightarrow> string \<Rightarrow> error + real" where
  \<comment> \<open>task1.py: \<open>total += qty * price if side == "sell" else -qty * price\<close> over the rows
      of the strategy; of a row only \<open>quantity\<close>, \<open>price\<close>, \<open>side\<close> and \<open>strategy\<close>
      are read. The store is \<open>None\<close> when no connection is passed and the file does
      not exist.\<close>
  "compute_pnl db strategy_id =
     (case db of
        None \<Rightarrow> Inl FileNotFoundError
      | Some tbl \<Rightarrow>
          Inr (fold (\<lambda>t total. total + (if side t = ''sell'' then quantity t * price t
                                          else - quantity t * price t))
                 (filter (\<lambda>t. strategy t = strategy_id) tbl) 0))"

section \<open>Maximum drawdown (task2\_analysis.py)\<close>

fun cumsum_from :: "real \<Rightarrow> real list \<Rightarrow> real list" where
  "cumsum_from acc [] = []"
| "cumsum_from acc (x # xs) = (acc + x) # cumsum_from (acc + x) xs"

definition cumsum :: "real list \<Rightarrow> real list" where
  "cumsum xs = cumsum_from 0 xs"

fun cummax_from :: "real \<Rightarrow> real list \<Rightarrow> real list" where
  "cummax_from m [] = []"
| "cummax_from m (x # xs) = max m x # cummax_from (max m x) xs"

definition cummax :: "real list \<Rightarrow> real list" where
  "cummax xs = (case xs of [] \<Rightarrow> [] | x # ys \<Rightarrow> x # cummax_from x ys)"

definition max_drawdown :: "real list \<Rightarrow> real option" where
  \<comment> \<open>\<open>(daily_pnl.cumsum() - daily_pnl.cumsum().cummax()).min()\<close>; the minimum of an
      empty series is NaN, here \<open>None\<close>.\<close>
  "max_drawdown daily_pnl =
     (let dd = map2 (\<lambda>c m. c - m) (cumsum daily_pnl) (cummax (cumsum daily_pnl))
      in if dd = [] then None else Some (Min (set dd)))"

definition drawdown_at :: "real list \<Rightarrow> nat \<Rightarrow> real" where
  \<comment> \<open>The specification's words: cumsum[t] minus the running maximum of cumsum up to t.\<close>
  "drawdown_at xs t = (\<Sum>i\<le>t. xs ! i) - Max ((\<lambda>s. \<Sum>i\<le>s. xs ! i) ` {..t})"

definition drawdown_spec :: "real list \<Rightarrow> real" where
  \<comment> \<open>The specification's words: the minimum of that difference over the positions t of
      the series.\<close>
  "drawdown_spec xs = Min (drawdown_at xs ` {..<length xs})"

section \<open>The arithmetic of the weights\<close>

text \<open>
  The weights are computed by numpy in binary64. Their values are modelled as a real
  number, an infinity or NaN, with the arithmetic of IEEE 754 on these and no rounding;
  a zero is the positive zero, as the difference of two equal numbers is. \<open>np.exp\<close>
  returns infinity for an argument above 709.782712893384, the largest binary64 whose
  exponential is finite.
\<close>

datatype npfloat = Fin real | PInf | NInf | NaN

fun fneg :: "npfloat \<Rightarrow> npfloat" where
  "fneg (Fin a) = Fin (- a)"
| "fneg PInf = NInf"
| "fneg NInf = PInf"
| "fneg NaN = NaN"

fun fadd :: "npfloat \<Rightarrow> npfloat \<Rightarrow> npfloat" where
  "fadd NaN b = NaN"
| "fadd a NaN = NaN"
| "fadd (Fin a) (Fin b) = Fin (a + b)"
| "fadd PInf NInf = NaN"
| "fadd NInf PInf = NaN"
| "fadd PInf b = PInf"
| "fadd a PInf = PInf"
| "fadd NInf b = NInf"
| "fadd a NInf = NInf"

definition fsub :: "npfloat \<Rightarrow> npfloat \<Rightarrow> npfloat" where
  "fsub a b = fadd a (fneg b)"

fun fmul :: "npfloat \<Rightarrow> npfloat \<Rightarrow> npfloat" where
  "fmul NaN b = NaN"
| "fmul a NaN = NaN"
| "fmul (Fin a) (Fin b) = Fin (a * b)"
| "fmul (Fin a) PInf = (if a = 0 then NaN else if 0 < a then PInf else NInf)"
| "fmul (Fin a) NInf = (if a = 0 then NaN else if 0 < a then NInf else PInf)"
| "fmul PInf (Fin b) = (if b = 0 then NaN else if 0 < b then PInf else NInf)"
| "fmul NInf (Fin b) = (if b = 0 then NaN else if 0 < b then NInf else PInf)"
| "fmul PInf PInf = PInf"
| "fmul PInf NInf = NInf"
| "fmul NInf PInf = NInf"
| "fmul NInf NInf = PInf"

fun fdiv :: "npfloat \<Rightarrow> npfloat \<Rightarrow> npfloat" where
  "fdiv NaN b = NaN"
| "fdiv a NaN = NaN"
| "fdiv (Fin a) (Fin b) =
     (if b = 0 then (if a = 0 then NaN else if 0 < a then PInf else NInf) else Fin (a / b))"
| "fdiv (Fin a) PInf = Fin 0"
| "fdiv (Fin a) NInf = Fin 0"
| "fdiv PInf (Fin b) = (if 0 \<le> b then PInf else NInf)"
| "fdiv NInf (Fin b) = (if 0 \<le> b then NInf else PInf)"
| "fdiv a b = NaN"

fun fmin :: "npfloat \<Rightarrow> npfloat \<Rightarrow> npfloat" where
  \<comment> \<open>One step of \<open>ndarray.min()\<close>, which propagates NaN.\<close>
  "fmin NaN b = NaN"
| "fmin a NaN = NaN"
| "fmin NInf b = NInf"
| "fmin a NInf = NInf"
| "fmin PInf b = b"
| "fmin a PInf = a"
| "fmin (Fin a) (Fin b) = Fin (min a b)"

fun fmax :: "npfloat \<Rightarrow> npfloat \<Rightarrow> npfloat" where
  \<comment> \<open>One step of \<open>ndarray.max()\<close>, which propagates NaN.\<close>
  "fmax NaN b = NaN"
| "fmax a NaN = NaN"
| "fmax PInf b = PInf"
| "fmax a PInf = PInf"
| "fmax NInf b = b"
| "fmax a NInf = a"
| "fmax (Fin a) (Fin b) = Fin (max a b)"

definition np_exp :: "real \<Rightarrow> npfloat" where
  "np_exp x = (if 709.782712893384 < x then PInf else Fin (exp x))"

section \<open>Walk-forward scoring (apply\_daily\_ml\_strategy)\<close>

text \<open>
  The classifier is a parameter: \<open>fit X y w\<close> is the model trained on the feature
  matrix, the labels and the sample weights, and \<open>predict_proba model x\<close> is the
  probability of class 1 that the model gives the feature vector \<open>x\<close>; the column
  \<open>predict_proba(X_test)[:, 1]\<close> is that probability row by row. Both are total:
  an exception raised inside the library is outside this development.
\<close>

definition min_train_days :: nat where
  "min_train_days = 30"

definition decay :: real where
  "decay = 0.01"

definition unique_days :: "feature_row list \<Rightarrow> int list" where
  \<comment> \<open>\<open>df_ml['date'].unique()\<close>: the dates in the order of their first appearance.\<close>
  "unique_days df_ml = rev (remdups (rev (map date df_ml)))"

definition train_data :: "feature_row list \<Rightarrow> int \<Rightarrow> feature_row list" where
  "train_data df_ml current_day = filter (\<lambda>r. date r < current_day) df_ml"

definition test_data :: "feature_row list \<Rightarrow> int \<Rightarrow> feature_row list" where
  "test_data df_ml current_day = filter (\<lambda>r. date r = current_day) df_ml"

definition X_of :: "feature_row \<Rightarrow> real list" where
  "X_of r = real_of_int (hour r) # other_features r"

definition y_of :: "feature_row \<Rightarrow> int" where
  "y_of r = (if spread r > 0 then 1 else 0)"

definition time_weights :: "nat \<Rightarrow> error + npfloat list" where
  \<comment> \<open>The two lines on \<open>time_weights\<close>; \<open>min\<close> and \<open>max\<close> of an empty array raise
      ValueError.\<close>
  "time_weights n_samples =
     (let tw = map (\<lambda>i. np_exp (decay * real i)) [0..<n_samples]
      in case tw of
           [] \<Rightarrow> Inl ValueError
         | t # ts \<Rightarrow>
             (let lo = fold fmin ts t;
                  hi = fold fmax ts t
              in Inr (map (\<lambda>w. fadd (Fin 0.5) (fdiv (fmul (Fin 0.5) (fsub w lo)) (fsub hi lo)))
                        tw)))"

definition signal_of :: "real \<Rightarrow> int" where
  \<comment> \<open>The three assignments to the column \<open>signal\<close>, for one row.\<close>
  "signal_of p =
     (let s = 0;
          s = (if p > 0.55 then 1 else s);
          s = (if p < 0.45 then - 1 else s)
      in s)"

definition score_row :: "(real list \<Rightarrow> real) \<Rightarrow> feature_row \<Rightarrow> scored_row" where
  "score_row proba r =
     feature_row.extend r (scored_row.fields (signal_of (proba (X_of r))) (proba (X_of r)))"

definition score_day ::
  "(real list list \<Rightarrow> int list \<Rightarrow> npfloat list \<Rightarrow> 'm) \<Rightarrow> ('m \<Rightarrow> real list \<Rightarrow> real) \<Rightarrow>
   feature_row list \<Rightarrow> int \<Rightarrow> error + scored_row list option" where
  \<comment> \<open>The body of the loop for \<open>current_day\<close>: \<open>Inr None\<close> is \<open>continue\<close>,
      \<open>Inr (Some rows)\<close> the frame appended to \<open>trades_list\<close>. The weights are
      computed after the guard on the number of samples, so the array is never empty
      there (lemma \<open>score_day_no_error\<close>).\<close>
  "score_day fit predict_proba df_ml current_day =
     (let train = train_data df_ml current_day in
      if length train < 100 then Inr None
      else
        (case time_weights (length train) of
           Inl e \<Rightarrow> Inl e
         | Inr w \<Rightarrow>
             (let model = fit (map X_of train) (map y_of train) w;
                  test = test_data df_ml current_day
              in if length test = 0 then Inr None
                 else Inr (Some (map (score_row (predict_proba model)) test)))))"

fun walk_forward ::
  "(real list list \<Rightarrow> int list \<Rightarrow> npfloat list \<Rightarrow> 'm) \<Rightarrow> ('m \<Rightarrow> real list \<Rightarrow> real) \<Rightarrow>
   feature_row list \<Rightarrow> scored_row list list \<Rightarrow> int list \<Rightarrow> error + scored_row list list" where
  "walk_forward fit predict_proba df_ml trades_list [] = Inr trades_list"
| "walk_forward fit predict_proba df_ml trades_list (current_day # days) =
     (case score_day fit predict_proba df_ml current_day of
        Inl e \<Rightarrow> Inl e
      | Inr None \<Rightarrow> walk_forward fit predict_proba df_ml trades_list days
      | Inr (Some rows) \<Rightarrow> walk_forward fit predict_proba df_ml (trades_list @ [rows]) days)"

definition apply_daily_ml_strategy ::
  "(real list list \<Rightarrow> int list \<Rightarrow> npfloat list \<Rightarrow> 'm) \<Rightarrow> ('m \<Rightarrow> real list \<Rightarrow> real) \<Rightarrow>
   feature_row list \<Rightarrow> error + scored_row list" where
  \<comment> \<open>\<open>pd.concat\<close> raises ValueError on an empty list of frames.\<close>
  "apply_daily_ml_strategy fit predict_proba df_ml =
     (case walk_forward fit predict_proba df_ml [] (drop min_train_days (unique_days df_ml)) of
        Inl e \<Rightarrow> Inl e
      | Inr trades_list \<Rightarrow> if trades_list = [] then Inl ValueError else Inr (concat trades_list))"

definition signals_for :: "error + scored_row list \<Rightarrow> int \<Rightarrow> scored_row list" where
  \<comment> \<open>The rows of the result dated \<open>d\<close>: what a run emits for the day.\<close>
  "signals_for res d = (case res of Inl e \<Rightarrow> [] | Inr rows \<Rightarrow> filter (\<lambda>s. date s = d) rows)"

section \<open>Inputs of the worked examples\<close>

text \<open>
  Concrete inputs on which the theorems below are instantiated and the code is run: a
  feature table of 32 days (day numbers 0 to 31) with four rows a day, at the hours 0, 6,
  12 and 18; a table of 31 days with one row a day; and a stand-in for the classifier,
  whose model is the number of training rows and whose probability is 0.6 before 9
  o'clock and 0.4 after, once the model has seen 100 rows.
\<close>

definition example_table :: "feature_row list" where
  "example_table =
     map (\<lambda>i. \<lparr> timestamp = 21600 * int i, date = int (i div 4), hour = 6 * int (i mod 4),
                da_price = 50, id_price_h = 60, spread = 10, other_features = [] \<rparr>) [0..<128]"

definition sparse_table :: "feature_row list" where
  "sparse_table =
     map (\<lambda>i. \<lparr> timestamp = 86400 * int i, date = int i, hour = 0,
                da_price = 50, id_price_h = 60, spread = 10, other_features = [] \<rparr>) [0..<31]"

definition toy_fit :: "real list list \<Rightarrow> int list \<Rightarrow> npfloat list \<Rightarrow> nat" where
  "toy_fit X y w = length X"

definition toy_predict_proba :: "nat \<Rightarrow> real list \<Rightarrow> real" where
  "toy_predict_proba model x = (if 100 \<le> model \<and> hd x < 9 then 0.6 else 0.4)"

section \<open>Properties of the scored rows\<close>

lemma score_row_sel:
  "signal (score_row proba r) = signal_of (proba (X_of r))"
  "prob (score_row proba r) = proba (X_of r)"
  "date (score_row proba r) = date r"
  "hour (score_row proba r) = hour r"
  "timestamp (score_row proba r) = timestamp r"
  "da_price (score_row proba r) = da_price r"
  "id_price_h (score_row proba r) = id_price_h r"
  by (simp_all add: score_row_def feature_row.defs scored_row.defs)

text \<open>
  C4 (signal trichotomy). A scored row records the probability that the classifier
  predicts for the row's feature vector, and its signal is 1 (long) exactly when that
  predicted probability is strictly above 0.55, -1 (short) exactly when it is strictly
  below 0.45, and 0 (flat) otherwise; a predicted probability of 0.56 gives long, 0.44
  gives short, and 0.50, 0.55 and 0.45 give flat.
\<close>

theorem signal_trichotomy:
  "prob (score_row proba r) = proba (X_of r) \<and>
   (signal (score_row proba r) = 1 \<longleftrightarrow> proba (X_of r) > 0.55) \<and>
   (signal (score_row proba r) = - 1 \<longleftrightarrow> proba (X_of r) < 0.45) \<and>
   (signal (score_row proba r) = 0 \<longleftrightarrow> 0.45 \<le> proba (X_of r) \<and> proba (X_of r) \<le> 0.55) \<and>
   (signal (score_row proba r) = 1 \<longleftrightarrow> prob (score_row proba r) > 0.55) \<and>
   (signal (score_row proba r) = - 1 \<longleftrightarrow> prob (score_row proba r) < 0.45) \<and>
   (signal (score_row proba r) = 0 \<longleftrightarrow>
      0.45 \<le> prob (score_row proba r) \<and> prob (score_row proba r) \<le> 0.55) \<and>
   signal (score_row (\<lambda>x. 0.56) r) = 1 \<and> signal (score_row (\<lambda>x. 0.44) r) = - 1 \<and>
   signal (score_row (\<lambda>x. 0.50) r) = 0 \<and> signal (score_row (\<lambda>x. 0.55) r) = 0 \<and>
   signal (score_row (\<lambda>x. 0.45) r) = 0 \<and>
   signal_of 0.56 = 1 \<and> signal_of 0.44 = - 1 \<and>
   signal_of 0.50 = 0 \<and> signal_of 0.55 = 0 \<and> signal_of 0.45 = 0"
  by (auto simp add: score_row_sel signal_of_def Let_def)

section \<open>Properties of the converter\<close>

lemma convert_to_trades_append:
  "convert_to_trades s (df @ df') = convert_to_trades s df @ convert_to_trades s df'"
  by (simp add: convert_to_trades_def)

lemma convert_to_trades_single:
  "convert_to_trades s [(idx, row)] = row_trades s idx row"
  by (auto simp add: convert_to_trades_def row_trades_def Let_def)

text \<open>
  C2 (trade pairing). A row with signal 1 yields exactly two trades, the day-ahead leg a
  buy at \<open>da_price\<close> and the intraday leg a sell at \<open>id_price_h\<close>; a row with signal -1
  yields the day-ahead leg as a sell and the intraday leg as a buy; both legs carry the
  row's delivery day and hour, the strategy label and the position size. A row with
  signal 0 yields no trade, and the trades of a frame are those of its rows, in order.
\<close>

theorem trade_pairing:
  "(signal row = 1 \<longrightarrow>
      (\<exists>da_leg id_leg. convert_to_trades s [(idx, row)] = [da_leg, id_leg] \<and>
         take 6 (trade_id da_leg) = ''ML_DA_'' \<and> side da_leg = ''buy'' \<and>
         price da_leg = da_price row \<and>
         take 6 (trade_id id_leg) = ''ML_ID_'' \<and> side id_leg = ''sell'' \<and>
         price id_leg = id_price_h row \<and>
         delivery_day da_leg = date_isoformat (date row) \<and>
         delivery_day id_leg = date_isoformat (date row) \<and>
         delivery_hour da_leg = hour row \<and> delivery_hour id_leg = hour row \<and>
         strategy da_leg = s \<and> strategy id_leg = s \<and>
         quantity da_leg = position_size \<and> quantity id_leg = position_size)) \<and>
   (signal row = - 1 \<longrightarrow>
      (\<exists>da_leg id_leg. convert_to_trades s [(idx, row)] = [da_leg, id_leg] \<and>
         take 6 (trade_id da_leg) = ''ML_DA_'' \<and> side da_leg = ''sell'' \<and>
         price da_leg = da_price row \<and>
         take 6 (trade_id id_leg) = ''ML_ID_'' \<and> side id_leg = ''buy'' \<and>
         price id_leg = id_price_h row \<and>
         delivery_day da_leg = date_isoformat (date row) \<and>
         delivery_day id_leg = date_isoformat (date row) \<and>
         delivery_hour da_leg = hour row \<and> delivery_hour id_leg = hour row \<and>
         strategy da_leg = s \<and> strategy id_leg = s \<and>
         quantity da_leg = position_size \<and> quantity id_leg = position_size)) \<and>
   (signal row = 0 \<longrightarrow> convert_to_trades s [(idx, row)] = []) \<and>
   convert_to_trades s (df @ df') = convert_to_trades s df @ convert_to_trades s df'"
  by (simp add: convert_to_trades_single convert_to_trades_append row_trades_def Let_def)

theorem trade_pairing_witness:
  "signal \<lparr>timestamp = 1623758400, date = 18793, hour = 12, da_price = 50, id_price_h = 60,
           spread = 10, other_features = [], signal = 1, prob = 0.6\<rparr> = 1 \<and>
   map (\<lambda>t. (side t, price t, quantity t, delivery_hour t, strategy t))
     (convert_to_trades ''ML_Daily_XGBoost''
        [(42, \<lparr>timestamp = 1623758400, date = 18793, hour = 12, da_price = 50, id_price_h = 60,
           spread = 10, other_features = [], signal = 1, prob = 0.6\<rparr>)])
     = [(''buy'', 50, 100, 12, ''ML_Daily_XGBoost''), (''sell'', 60, 100, 12, ''ML_Daily_XGBoost'')] \<and>
   signal \<lparr>timestamp = 1623758400, date = 18793, hour = 12, da_price = 50, id_price_h = 60,
           spread = 10, other_features = [], signal = - 1, prob = 0.4\<rparr> = - 1 \<and>
   map (\<lambda>t. (side t, price t, quantity t, delivery_hour t, strategy t))
     (convert_to_trades ''ML_Daily_XGBoost''
        [(43, \<lparr>timestamp = 1623758400, date = 18793, hour = 12, da_price = 50, id_price_h = 60,
           spread = 10, other_features = [], signal = - 1, prob = 0.4\<rparr>)])
     = [(''sell'', 50, 100, 12, ''ML_Daily_XGBoost''), (''buy'', 60, 100, 12, ''ML_Daily_XGBoost'')] \<and>
   signal \<lparr>timestamp = 1623758400, date = 18793, hour = 12, da_price = 50, id_price_h = 60,
           spread = 10, other_features = [], signal = 0, prob = 0.5\<rparr> = 0 \<and>
   convert_to_trades ''ML_Daily_XGBoost''
        [(44, \<lparr>timestamp = 1623758400, date = 18793, hour = 12, da_price = 50, id_price_h = 60,
           spread = 10, other_features = [], signal = 0, prob = 0.5\<rparr>)] = []"
  using
    trade_pairing [of "\<lparr>timestamp = 1623758400, date = 18793, hour = 12, da_price = 50,
      id_price_h = 60, spread = 10, other_features = [], signal = 1, prob = 0.6\<rparr>"
      "''ML_Daily_XGBoost''" 42 "[]" "[]"]
    trade_pairing [of "\<lparr>timestamp = 1623758400, date = 18793, hour = 12, da_price = 50,
      id_price_h = 60, spread = 10, other_features = [], signal = - 1, prob = 0.4\<rparr>"
      "''ML_Daily_XGBoost''" 43 "[]" "[]"]
    trade_pairing [of "\<lparr>timestamp = 1623758400, date = 18793, hour = 12, da_price = 50,
      id_price_h = 60, spread = 10, other_features = [], signal = 0, prob = 0.5\<rparr>"
      "''ML_Daily_XGBoost''" 44 "[]" "[]"]
  by (auto simp add: position_size_def)

text \<open>
  C3 (timing), as the code has it. For a row with signal 1 or -1 the day-ahead leg is
  executed exactly one day before the row's timestamp, and the intraday leg exactly two
  hours after the day-ahead leg, that is 22 hours before the row's timestamp.
\<close>

theorem leg_timing:
  "signal row = 1 \<or> signal row = - 1 \<Longrightarrow>
   \<exists>da_leg id_leg. convert_to_trades s [(idx, row)] = [da_leg, id_leg] \<and>
      take 6 (trade_id da_leg) = ''ML_DA_'' \<and> take 6 (trade_id id_leg) = ''ML_ID_'' \<and>
      exec_timestamp da_leg = isoformat (timestamp row - timedelta 1 0) \<and>
      exec_timestamp id_leg = isoformat (timestamp row - timedelta 1 0 + timedelta 0 2) \<and>
      timedelta 1 0 = 86400 \<and> timedelta 0 2 = 7200"
  by (auto simp add: convert_to_trades_single row_trades_def Let_def timedelta_def)

lemma isoformat_decision: "isoformat 1623672000 = ''2021-06-14T12:00:00''" by code_simp
lemma isoformat_intraday: "isoformat 1623679200 = ''2021-06-14T14:00:00''" by code_simp
lemma isoformat_delivery: "isoformat 1623758400 = ''2021-06-15T12:00:00''" by code_simp

theorem leg_timing_witness:
  "map exec_timestamp (convert_to_trades ''ML_Daily_XGBoost''
        [(42, \<lparr>timestamp = 1623758400, date = 18793, hour = 12, da_price = 50, id_price_h = 60,
           spread = 10, other_features = [], signal = 1, prob = 0.6\<rparr>)])
    = [''2021-06-14T12:00:00'', ''2021-06-14T14:00:00'']"
  using leg_timing [of "\<lparr>timestamp = 1623758400, date = 18793, hour = 12, da_price = 50,
      id_price_h = 60, spread = 10, other_features = [], signal = 1, prob = 0.6\<rparr>"
      "''ML_Daily_XGBoost''" 42]
  by (auto simp add: timedelta_def isoformat_decision isoformat_intraday)

text \<open>
  The intraday leg is not executed one day before the row's timestamp: for the
  observation of 2021-06-15 12:00 it is stamped 2021-06-14 14:00, and one day before the
  observation is 2021-06-14 12:00.
\<close>

theorem both_legs_one_day_before_counterexample:
  "exec_timestamp (convert_to_trades ''ML_Daily_XGBoost''
        [(42, \<lparr>timestamp = 1623758400, date = 18793, hour = 12, da_price = 50, id_price_h = 60,
           spread = 10, other_features = [], signal = 1, prob = 0.6\<rparr>)] ! 1)
     \<noteq> isoformat (timestamp \<lparr>timestamp = 1623758400, date = 18793, hour = 12, da_price = 50,
       id_price_h = 60, spread = 10, other_features = [], signal = 1, prob = 0.6\<rparr> - timedelta 1 0) \<and>
   exec_timestamp (convert_to_trades ''ML_Daily_XGBoost''
        [(42, \<lparr>timestamp = 1623758400, date = 18793, hour = 12, da_price = 50, id_price_h = 60,
           spread = 10, other_features = [], signal = 1, prob = 0.6\<rparr>)] ! 1)
     = ''2021-06-14T14:00:00'' \<and>
   isoformat (timestamp \<lparr>timestamp = 1623758400, date = 18793, hour = 12, da_price = 50,
       id_price_h = 60, spread = 10, other_features = [], signal = 1, prob = 0.6\<rparr>)
     = ''2021-06-15T12:00:00'' \<and>
   isoformat (timestamp \<lparr>timestamp = 1623758400, date = 18793, hour = 12, da_price = 50,
       id_price_h = 60, spread = 10, other_features = [], signal = 1, prob = 0.6\<rparr> - timedelta 1 0)
     = ''2021-06-14T12:00:00''"
  by (simp add: convert_to_trades_single row_trades_def Let_def timedelta_def isoformat_decision isoformat_intraday isoformat_delivery)

section \<open>Maximum drawdown\<close>

lemma length_cumsum_from [simp]: "length (cumsum_from a xs) = length xs"
  by (induction xs arbitrary: a) auto

lemma nth_cumsum_from:
  "t < length xs \<Longrightarrow> cumsum_from a xs ! t = a + (\<Sum>i\<le>t. xs ! i)"
proof (induction xs arbitrary: a t)
  case Nil
  then show ?case by simp
next
  case (Cons x xs)
  show ?case
  proof (cases t)
    case 0
    then show ?thesis by simp
  next
    case (Suc k)
    with Cons.prems have k: "k < length xs" by simp
    have "(\<Sum>i\<le>Suc k. (x # xs) ! i) = x + (\<Sum>i\<le>k. xs ! i)"
      by (simp add: sum.atMost_Suc_shift del: sum.atMost_Suc)
    with Cons.IH [OF k, of "a + x"] Suc show ?thesis by simp
  qed
qed

lemma length_cummax_from [simp]: "length (cummax_from m xs) = length xs"
  by (induction xs arbitrary: m) auto

lemma nth_cummax_from:
  "t < length xs \<Longrightarrow> cummax_from m xs ! t = max m (Max ((\<lambda>s. xs ! s) ` {..t}))"
proof (induction xs arbitrary: m t)
  case Nil
  then show ?case by simp
next
  case (Cons x xs)
  show ?case
  proof (cases t)
    case 0
    then show ?thesis by simp
  next
    case (Suc k)
    with Cons.prems have k: "k < length xs" by simp
    have img: "(\<lambda>s. (x # xs) ! s) ` {..Suc k} = insert x ((\<lambda>s. xs ! s) ` {..k})"
      by (auto simp add: atMost_Suc_eq_insert_0 image_image)
    have "Max ((\<lambda>s. (x # xs) ! s) ` {..Suc k}) = max x (Max ((\<lambda>s. xs ! s) ` {..k}))"
      unfolding img by (rule Max_insert) auto
    with Cons.IH [OF k, of "max m x"] Suc show ?thesis by (simp add: max.assoc)
  qed
qed

lemma length_cummax [simp]: "length (cummax xs) = length xs"
  by (cases xs) (auto simp add: cummax_def)

lemma nth_cummax:
  assumes t: "t < length xs"
  shows "cummax xs ! t = Max ((\<lambda>s. xs ! s) ` {..t})"
proof (cases xs)
  case Nil
  with t show ?thesis by simp
next
  case (Cons x ys)
  show ?thesis
  proof (cases t)
    case 0
    with Cons show ?thesis by (simp add: cummax_def)
  next
    case (Suc k)
    with t Cons have k: "k < length ys" by simp
    have img: "(\<lambda>s. (x # ys) ! s) ` {..Suc k} = insert x ((\<lambda>s. ys ! s) ` {..k})"
      by (auto simp add: atMost_Suc_eq_insert_0 image_image)
    have "Max ((\<lambda>s. (x # ys) ! s) ` {..Suc k}) = max x (Max ((\<lambda>s. ys ! s) ` {..k}))"
      unfolding img by (rule Max_insert) auto
    with nth_cummax_from [OF k, of x] Suc Cons show ?thesis by (simp add: cummax_def)
  qed
qed

lemma drawdown_series:
  "map2 (\<lambda>c m. c - m) (cumsum xs) (cummax (cumsum xs)) = map (drawdown_at xs) [0..<length xs]"
proof (rule nth_equalityI)
  show "length (map2 (\<lambda>c m. c - m) (cumsum xs) (cummax (cumsum xs))) =
        length (map (drawdown_at xs) [0..<length xs])"
    by (simp add: cumsum_def)
next
  fix t
  assume "t < length (map2 (\<lambda>c m. c - m) (cumsum xs) (cummax (cumsum xs)))"
  then have t: "t < length xs" by (simp add: cumsum_def)
  have c: "\<And>s. s \<le> t \<Longrightarrow> cumsum xs ! s = (\<Sum>i\<le>s. xs ! i)"
    using t by (simp add: cumsum_def nth_cumsum_from)
  have "(\<lambda>s. cumsum xs ! s) ` {..t} = (\<lambda>s. \<Sum>i\<le>s. xs ! i) ` {..t}"
    using c by (intro image_cong) auto
  then have "cummax (cumsum xs) ! t = Max ((\<lambda>s. \<Sum>i\<le>s. xs ! i) ` {..t})"
    using t by (simp add: nth_cummax cumsum_def)
  with c [of t] t show "map2 (\<lambda>c m. c - m) (cumsum xs) (cummax (cumsum xs)) ! t =
      map (drawdown_at xs) [0..<length xs] ! t"
    by (simp add: drawdown_at_def cumsum_def)
qed

lemma max_drawdown_eq_spec:
  assumes "xs \<noteq> []"
  shows "max_drawdown xs = Some (drawdown_spec xs)"
proof -
  have "set (map (drawdown_at xs) [0..<length xs]) = drawdown_at xs ` {..<length xs}"
    by (simp add: atLeast0LessThan)
  moreover have "drawdown_spec xs = Min (drawdown_at xs ` {..<length xs})"
    by (simp add: drawdown_spec_def)
  ultimately show ?thesis
    using assms by (simp add: max_drawdown_def drawdown_series Let_def)
qed

lemma drawdown_at_nonpos: "drawdown_at xs t \<le> 0"
proof -
  have "(\<Sum>i\<le>t. xs ! i) \<le> Max ((\<lambda>s. \<Sum>i\<le>s. xs ! i) ` {..t})"
    by (rule Max_ge) auto
  then show ?thesis by (simp add: drawdown_at_def)
qed

lemma drawdown_spec_nonpos:
  assumes "xs \<noteq> []"
  shows "drawdown_spec xs \<le> 0"
proof -
  have fin: "finite (drawdown_at xs ` {..<length xs})" by simp
  have mem: "drawdown_at xs 0 \<in> drawdown_at xs ` {..<length xs}"
    using assms by auto
  have "Min (drawdown_at xs ` {..<length xs}) \<le> drawdown_at xs 0"
    by (rule Min_le [OF fin mem])
  also have "\<dots> \<le> 0" by (rule drawdown_at_nonpos)
  finally show ?thesis by (simp add: drawdown_spec_def)
qed

lemma drawdown_at_zero:
  assumes "\<forall>x\<in>set xs. 0 \<le> x" and "t < length xs"
  shows "drawdown_at xs t = 0"
proof -
  have mono: "(\<Sum>i\<le>s. xs ! i) \<le> (\<Sum>i\<le>t. xs ! i)" if "s \<le> t" for s
  proof (rule sum_mono2)
    show "finite {..t}" by simp
    show "{..s} \<subseteq> {..t}" using that by auto
    fix b assume "b \<in> {..t} - {..s}"
    then have "b < length xs" using assms(2) by auto
    then show "0 \<le> xs ! b" using assms(1) by auto
  qed
  have "Max ((\<lambda>s. \<Sum>i\<le>s. xs ! i) ` {..t}) = (\<Sum>i\<le>t. xs ! i)"
  proof (rule Max_eqI)
    show "finite ((\<lambda>s. \<Sum>i\<le>s. xs ! i) ` {..t})" by simp
    show "(\<Sum>i\<le>t. xs ! i) \<in> (\<lambda>s. \<Sum>i\<le>s. xs ! i) ` {..t}" by auto
    fix y assume "y \<in> (\<lambda>s. \<Sum>i\<le>s. xs ! i) ` {..t}"
    then show "y \<le> (\<Sum>i\<le>t. xs ! i)" using mono by auto
  qed
  then show ?thesis by (simp add: drawdown_at_def)
qed

lemma drawdown_spec_zero:
  assumes "xs \<noteq> []" and "\<forall>x\<in>set xs. 0 \<le> x"
  shows "drawdown_spec xs = 0"
proof -
  have "drawdown_at xs ` {..<length xs} = {0}"
    using assms drawdown_at_zero [OF assms(2)] by (auto simp add: image_iff)
  then show ?thesis by (simp add: drawdown_spec_def)
qed

lemma max_drawdown_example: "max_drawdown [100, - 50, 30, - 80, 200] = Some (- 100)"
  by (simp add: max_drawdown_def cumsum_def cummax_def)

text \<open>
  C7 (maximum drawdown). For a non-empty series of daily PnL the reported maximum
  drawdown is the minimum over t of cumsum[t] minus the running maximum of cumsum up to
  t; it is never positive, it is zero when no daily PnL is negative, and for
  [100, -50, 30, -80, 200] it is -100.
\<close>

theorem max_drawdown_correct:
  "daily_pnl \<noteq> [] \<Longrightarrow>
     max_drawdown daily_pnl = Some (drawdown_spec daily_pnl) \<and>
     drawdown_spec daily_pnl \<le> 0 \<and>
     ((\<forall>x\<in>set daily_pnl. 0 \<le> x) \<longrightarrow> max_drawdown daily_pnl = Some 0) \<and>
     cumsum [100, - 50, 30, - 80, 200] = [100, 50, 80, 0, 200] \<and>
     cummax (cumsum [100, - 50, 30, - 80, 200]) = [100, 100, 100, 100, 200] \<and>
     max_drawdown [100, - 50, 30, - 80, 200] = Some (- 100)"
  using max_drawdown_eq_spec [of daily_pnl] drawdown_spec_nonpos [of daily_pnl]
    drawdown_spec_zero [of daily_pnl] max_drawdown_example
  by (simp add: cumsum_def cummax_def)

theorem max_drawdown_correct_witness:
  "max_drawdown [100, - 50, 30, - 80, 200] = Some (drawdown_spec [100, - 50, 30, - 80, 200]) \<and>
   drawdown_spec [100, - 50, 30, - 80, 200] = - 100 \<and>
   max_drawdown [10, 0, 5] = Some 0"
  using max_drawdown_correct [of "[100, - 50, 30, - 80, 200]"]
    max_drawdown_correct [of "[10, 0, 5]"]
  by auto

section \<open>Recency weights\<close>

lemma Min_mono_upt:
  fixes f :: "nat \<Rightarrow> real"
  assumes "0 < n" and mono: "\<And>i j. i \<le> j \<Longrightarrow> f i \<le> f j"
  shows "Min (set (map f [0..<n])) = f 0"
proof (rule Min_eqI)
  show "finite (set (map f [0..<n]))" by simp
  have "0 \<in> set [0..<n]" using assms(1) by simp
  then show "f 0 \<in> set (map f [0..<n])" unfolding set_map by (rule imageI)
  fix y assume "y \<in> set (map f [0..<n])"
  then obtain i where "y = f i" by auto
  with mono [of 0 i] show "f 0 \<le> y" by simp
qed

lemma Max_mono_upt:
  fixes f :: "nat \<Rightarrow> real"
  assumes "0 < n" and mono: "\<And>i j. i \<le> j \<Longrightarrow> f i \<le> f j"
  shows "Max (set (map f [0..<n])) = f (n - 1)"
proof (rule Max_eqI)
  show "finite (set (map f [0..<n]))" by simp
  have "n - 1 \<in> set [0..<n]" using assms(1) by simp
  then show "f (n - 1) \<in> set (map f [0..<n])" unfolding set_map by (rule imageI)
  fix y assume "y \<in> set (map f [0..<n])"
  then obtain i where "y = f i" and "i < n" by auto
  with mono [of i "n - 1"] show "y \<le> f (n - 1)" by simp
qed

lemma decay_pos: "0 < decay"
  by (simp add: decay_def)

lemma exp_decay_mono: "i \<le> j \<Longrightarrow> exp (decay * real i) \<le> exp (decay * real j)"
  using decay_pos by simp

lemma exp_decay_last_gt:
  assumes "2 \<le> n"
  shows "exp (decay * real 0) < exp (decay * real (n - 1))"
proof -
  have "real 0 < real (n - 1)" using assms by simp
  then have "decay * real 0 < decay * real (n - 1)"
    by (rule mult_strict_left_mono [OF _ decay_pos])
  then show ?thesis by (simp only: exp_less_cancel_iff)
qed

lemma np_exp_finite:
  assumes "i \<le> 70978"
  shows "np_exp (decay * real i) = Fin (exp (decay * real i))"
proof -
  from assms have "real i \<le> 70978" by simp
  then have "decay * real i \<le> 709.78" by (simp add: decay_def)
  then have "\<not> 709.782712893384 < decay * real i" by simp
  then show ?thesis by (simp only: np_exp_def if_False)
qed

lemma np_exp_overflow:
  assumes "70979 \<le> i"
  shows "np_exp (decay * real i) = PInf"
proof -
  from assms have "70979 \<le> real i" by simp
  then have "709.79 \<le> decay * real i" by (simp add: decay_def)
  then have "709.782712893384 < decay * real i" by simp
  then show ?thesis by (simp only: np_exp_def if_True)
qed

lemma fold_fmin_least:
  assumes "\<forall>y\<in>set xs. y = PInf \<or> (\<exists>b. y = Fin b \<and> a \<le> b)"
  shows "fold fmin xs (Fin a) = Fin a"
  using assms by (induction xs) (auto simp add: min_def)

lemma fold_fmax_Fin: "fold fmax (map Fin xs) (Fin x) = Fin (fold max xs x)"
  by (induction xs arbitrary: x) simp_all

lemma fold_fmax_PInf_acc:
  assumes "\<forall>y\<in>set xs. y = PInf \<or> (\<exists>b. y = Fin b)"
  shows "fold fmax xs PInf = PInf"
  using assms by (induction xs) auto

lemma fold_fmax_PInf:
  assumes "\<forall>y\<in>set xs. y = PInf \<or> (\<exists>b. y = Fin b)" and "PInf \<in> set xs"
  shows "fold fmax xs (Fin a) = PInf"
  using assms
proof (induction xs arbitrary: a)
  case Nil
  then show ?case by simp
next
  case (Cons y ys)
  from Cons.prems(1) have ys: "\<forall>z\<in>set ys. z = PInf \<or> (\<exists>b. z = Fin b)" by simp
  show ?case
  proof (cases "y = PInf")
    case True
    with fold_fmax_PInf_acc [OF ys] show ?thesis by simp
  next
    case False
    with Cons.prems obtain b where y: "y = Fin b" and "PInf \<in> set ys" by auto
    with Cons.IH [OF ys, of "max b a"] show ?thesis by simp
  qed
qed

lemma weights_input:
  assumes "0 < n"
  shows "map (\<lambda>i. np_exp (decay * real i)) [0..<n] =
     Fin (exp (decay * real 0)) # map (\<lambda>i. np_exp (decay * real i)) [1..<n]"
proof -
  have "[0..<n] = 0 # [1..<n]" using assms by (simp add: upt_conv_Cons)
  moreover have "np_exp (decay * real 0) = Fin (exp (decay * real 0))"
    by (rule np_exp_finite) simp
  ultimately show ?thesis by simp
qed

lemma weights_lo:
  "fold fmin (map (\<lambda>i. np_exp (decay * real i)) [1..<n]) (Fin (exp (decay * real 0)))
     = Fin (exp (decay * real 0))"
proof (rule fold_fmin_least, rule ballI)
  fix y assume "y \<in> set (map (\<lambda>i. np_exp (decay * real i)) [1..<n])"
  then obtain i where y: "y = np_exp (decay * real i)" by auto
  show "y = PInf \<or> (\<exists>b. y = Fin b \<and> exp (decay * real 0) \<le> b)"
  proof (cases "i \<le> 70978")
    case True
    from np_exp_finite [OF True] exp_decay_mono [of 0 i] y show ?thesis by simp
  next
    case False
    then have "70979 \<le> i" by simp
    from np_exp_overflow [OF this] y show ?thesis by simp
  qed
qed

lemma weights_hi_finite:
  assumes "0 < n" and "n \<le> 70979"
  shows "fold fmax (map (\<lambda>i. np_exp (decay * real i)) [1..<n]) (Fin (exp (decay * real 0)))
     = Fin (exp (decay * real (n - 1)))"
proof -
  have fin: "map (\<lambda>i. np_exp (decay * real i)) [1..<n] = map Fin (map (\<lambda>i. exp (decay * real i)) [1..<n])"
    using assms(2) by (auto simp add: np_exp_finite)
  have c: "[0..<n] = 0 # [1..<n]" using assms(1) by (simp add: upt_conv_Cons)
  have "fold max (map (\<lambda>i. exp (decay * real i)) [1..<n]) (exp (decay * real 0))
      = Max (set (exp (decay * real 0) # map (\<lambda>i. exp (decay * real i)) [1..<n]))"
    by (simp only: Max.set_eq_fold)
  also have "exp (decay * real 0) # map (\<lambda>i. exp (decay * real i)) [1..<n]
      = map (\<lambda>i. exp (decay * real i)) [0..<n]"
    unfolding c by (simp only: list.map)
  also have "Max (set (map (\<lambda>i. exp (decay * real i)) [0..<n])) = exp (decay * real (n - 1))"
    by (rule Max_mono_upt [OF assms(1) exp_decay_mono])
  finally show ?thesis by (simp only: fin fold_fmax_Fin)
qed

lemma weights_hi_overflow:
  assumes "70980 \<le> n"
  shows "fold fmax (map (\<lambda>i. np_exp (decay * real i)) [1..<n]) (Fin (exp (decay * real 0)))
     = PInf"
proof (rule fold_fmax_PInf)
  show "\<forall>y\<in>set (map (\<lambda>i. np_exp (decay * real i)) [1..<n]). y = PInf \<or> (\<exists>b. y = Fin b)"
    by (auto simp add: np_exp_def)
  have "70979 \<in> set [1..<n]" using assms by simp
  then have "np_exp (decay * real 70979) \<in> set (map (\<lambda>i. np_exp (decay * real i)) [1..<n])"
    unfolding set_map by (rule imageI)
  moreover have "np_exp (decay * real 70979) = PInf" by (rule np_exp_overflow) simp
  ultimately show "PInf \<in> set (map (\<lambda>i. np_exp (decay * real i)) [1..<n])" by simp
qed

lemma time_weights_unfold:
  assumes "0 < n"
  shows "time_weights n =
     Inr (map (\<lambda>w. fadd (Fin 0.5) (fdiv (fmul (Fin 0.5) (fsub w (Fin (exp (decay * real 0)))))
            (fsub (fold fmax (map (\<lambda>i. np_exp (decay * real i)) [1..<n])
                     (Fin (exp (decay * real 0))))
                  (Fin (exp (decay * real 0))))))
          (map (\<lambda>i. np_exp (decay * real i)) [0..<n]))"
proof -
  have "time_weights n =
      (case Fin (exp (decay * real 0)) # map (\<lambda>i. np_exp (decay * real i)) [1..<n] of
         [] \<Rightarrow> Inl ValueError
       | t # ts \<Rightarrow>
           (let lo = fold fmin ts t; hi = fold fmax ts t
            in Inr (map (\<lambda>w. fadd (Fin 0.5) (fdiv (fmul (Fin 0.5) (fsub w lo)) (fsub hi lo)))
                 (Fin (exp (decay * real 0)) # map (\<lambda>i. np_exp (decay * real i)) [1..<n]))))"
    unfolding time_weights_def Let_def weights_input [OF assms] ..
  then have "time_weights n =
     Inr (map (\<lambda>w. fadd (Fin 0.5) (fdiv (fmul (Fin 0.5) (fsub w (Fin (exp (decay * real 0)))))
            (fsub (fold fmax (map (\<lambda>i. np_exp (decay * real i)) [1..<n])
                     (Fin (exp (decay * real 0))))
                  (Fin (exp (decay * real 0))))))
          (Fin (exp (decay * real 0)) # map (\<lambda>i. np_exp (decay * real i)) [1..<n]))"
    by (simp only: list.case Let_def weights_lo)
  then show ?thesis
    by (simp only: weights_input [OF assms, symmetric])
qed

lemma time_weights_defined:
  assumes "0 < n"
  shows "\<exists>w. time_weights n = Inr w"
  using time_weights_unfold [OF assms] by blast

lemma time_weights_finite:
  assumes "2 \<le> n" and "n \<le> 70979"
  shows "time_weights n =
    Inr (map (\<lambda>i. Fin (0.5 + 0.5 * (exp (decay * real i) - exp (decay * real 0)) /
                 (exp (decay * real (n - 1)) - exp (decay * real 0)))) [0..<n])"
proof -
  define e where "e = (\<lambda>i. exp (decay * real i))"
  from assms have n: "0 < n" by simp
  have "e 0 < e (n - 1)"
    unfolding e_def by (rule exp_decay_last_gt [OF assms(1)])
  then have gt: "e (n - 1) - e 0 \<noteq> 0" by simp
  have fin: "np_exp (decay * real i) = Fin (e i)" if "i \<in> set [0..<n]" for i
    unfolding e_def using that assms(2) by (intro np_exp_finite) simp
  have "time_weights n =
     Inr (map (\<lambda>w. fadd (Fin 0.5) (fdiv (fmul (Fin 0.5) (fsub w (Fin (e 0))))
            (fsub (Fin (e (n - 1))) (Fin (e 0)))))
          (map (\<lambda>i. np_exp (decay * real i)) [0..<n]))"
    unfolding e_def by (simp only: time_weights_unfold [OF n] weights_hi_finite [OF n assms(2)])
  also have "map (\<lambda>w. fadd (Fin 0.5) (fdiv (fmul (Fin 0.5) (fsub w (Fin (e 0))))
            (fsub (Fin (e (n - 1))) (Fin (e 0)))))
          (map (\<lambda>i. np_exp (decay * real i)) [0..<n])
      = map (\<lambda>i. Fin (0.5 + 0.5 * (e i - e 0) / (e (n - 1) - e 0))) [0..<n]"
    unfolding map_map o_def
  proof (rule map_cong [OF refl])
    fix i assume i: "i \<in> set [0..<n]"
    show "fadd (Fin 0.5) (fdiv (fmul (Fin 0.5) (fsub (np_exp (decay * real i)) (Fin (e 0))))
            (fsub (Fin (e (n - 1))) (Fin (e 0))))
        = Fin (0.5 + 0.5 * (e i - e 0) / (e (n - 1) - e 0))"
      using gt by (simp add: fin [OF i] fsub_def)
  qed
  finally show ?thesis unfolding e_def .
qed

lemma time_weights_overflow_rows:
  assumes "70980 \<le> n"
  shows "time_weights n = Inr (map (\<lambda>i. if i < 70979 then Fin 0.5 else NaN) [0..<n])"
proof -
  from assms have n: "0 < n" by simp
  have "time_weights n =
     Inr (map (\<lambda>w. fadd (Fin 0.5) (fdiv (fmul (Fin 0.5) (fsub w (Fin (exp (decay * real 0)))))
            (fsub PInf (Fin (exp (decay * real 0))))))
          (map (\<lambda>i. np_exp (decay * real i)) [0..<n]))"
    by (simp only: time_weights_unfold [OF n] weights_hi_overflow [OF assms])
  also have "map (\<lambda>w. fadd (Fin 0.5) (fdiv (fmul (Fin 0.5) (fsub w (Fin (exp (decay * real 0)))))
            (fsub PInf (Fin (exp (decay * real 0))))))
          (map (\<lambda>i. np_exp (decay * real i)) [0..<n])
      = map (\<lambda>i. if i < 70979 then Fin 0.5 else NaN) [0..<n]"
    unfolding map_map o_def
  proof (rule map_cong [OF refl])
    fix i assume "i \<in> set [0..<n]"
    show "fadd (Fin 0.5) (fdiv (fmul (Fin 0.5) (fsub (np_exp (decay * real i))
              (Fin (exp (decay * real 0)))))
            (fsub PInf (Fin (exp (decay * real 0)))))
        = (if i < 70979 then Fin 0.5 else NaN)"
    proof (cases "i < 70979")
      case True
      then have "i \<le> 70978" by simp
      from np_exp_finite [OF this] True show ?thesis by (simp add: fsub_def)
    next
      case False
      then have "70979 \<le> i" by simp
      from np_exp_overflow [OF this] False show ?thesis by (simp add: fsub_def)
    qed
  qed
  finally show ?thesis .
qed

lemma rescaled_first:
  fixes e :: "nat \<Rightarrow> real"
  shows "0.5 + 0.5 * (e 0 - e 0) / (e (n - 1) - e 0) = 0.5"
  by simp

lemma rescaled_last:
  fixes e :: "nat \<Rightarrow> real"
  assumes "e 0 < e (n - 1)"
  shows "0.5 + 0.5 * (e (n - 1) - e 0) / (e (n - 1) - e 0) = 1"
proof -
  define d where "d = e (n - 1) - e 0"
  have "d \<noteq> 0" using assms by (simp add: d_def)
  then have "0.5 * d / d = (0.5::real)" by simp
  then have "0.5 + 0.5 * d / d = (1::real)" by simp
  then show ?thesis unfolding d_def .
qed

lemma rescaled_mono:
  fixes e :: "nat \<Rightarrow> real"
  assumes mono: "\<And>i j. i \<le> j \<Longrightarrow> e i \<le> e j" and gt: "e 0 < e (n - 1)" and ij: "i \<le> j"
  shows "0.5 + 0.5 * (e i - e 0) / (e (n - 1) - e 0)
       \<le> 0.5 + 0.5 * (e j - e 0) / (e (n - 1) - e 0)"
proof -
  define d where "d = e (n - 1) - e 0"
  have pos: "0 \<le> d" using gt by (simp add: d_def)
  have "e i - e 0 \<le> e j - e 0" using mono [OF ij] by simp
  then have "0.5 * (e i - e 0) \<le> 0.5 * (e j - e 0)" by simp
  then have "0.5 * (e i - e 0) / d \<le> 0.5 * (e j - e 0) / d"
    using pos by (rule divide_right_mono)
  then have "0.5 + 0.5 * (e i - e 0) / d \<le> 0.5 + 0.5 * (e j - e 0) / d" by simp
  then show ?thesis unfolding d_def .
qed

text \<open>
  Up to 70,979 training samples the exponentials are finite and the weights are as
  intended: one per sample, all in [0.5, 1.0], non-decreasing in chronological position,
  0.5 for the oldest sample and 1.0, the maximum, for the most recent.
\<close>

lemma time_weights_in_range:
  assumes n: "2 \<le> n" and b: "n \<le> 70979"
  shows "\<exists>ws. time_weights n = Inr (map Fin ws) \<and> length ws = n \<and>
     (\<forall>w\<in>set ws. 0.5 \<le> w \<and> w \<le> 1) \<and> sorted ws \<and>
     hd ws = 0.5 \<and> last ws = 1 \<and> (\<forall>w\<in>set ws. w \<le> last ws)"
proof -
  define w where "w = (\<lambda>i. 0.5 + 0.5 * (exp (decay * real i) - exp (decay * real 0)) /
                 (exp (decay * real (n - 1)) - exp (decay * real 0)))"
  let ?ws = "map w [0..<n]"
  have first: "w 0 = 0.5"
    unfolding w_def by (rule rescaled_first [of "\<lambda>i. exp (decay * real i)"])
  have final: "w (n - 1) = 1"
    unfolding w_def
    by (rule rescaled_last [of "\<lambda>i. exp (decay * real i)", OF exp_decay_last_gt [OF n]])
  have mono: "w i \<le> w j" if "i \<le> j" for i j
    unfolding w_def
    by (rule rescaled_mono [of "\<lambda>i. exp (decay * real i)", OF exp_decay_mono
          exp_decay_last_gt [OF n] that])
  have eq: "time_weights n = Inr (map Fin ?ws)"
    unfolding w_def map_map o_def by (rule time_weights_finite [OF n b])
  have ne: "[0..<n] \<noteq> []" using n by simp
  have rng: "\<forall>x\<in>set ?ws. 0.5 \<le> x \<and> x \<le> 1"
  proof
    fix x assume "x \<in> set ?ws"
    then obtain i where i: "i < n" and x: "x = w i" by auto
    from mono [of 0 i] mono [of i "n - 1"] first final i x
    show "0.5 \<le> x \<and> x \<le> 1" by simp
  qed
  have srt: "sorted ?ws" by (simp add: sorted_iff_nth_mono mono)
  have hd: "hd ?ws = 0.5"
    using n first by (simp add: hd_map upt_conv_Cons)
  have lst: "last ?ws = 1"
    using final ne by (simp add: last_map)
  have len: "length ?ws = n" by simp
  have mx: "\<forall>x\<in>set ?ws. x \<le> last ?ws" using rng lst by simp
  show ?thesis
    using eq len rng srt hd lst mx by blast
qed

lemma time_weights_two_samples: "time_weights 2 = Inr [Fin 0.5, Fin 1]"
proof -
  have "(2::nat) \<le> 2" and "(2::nat) \<le> 70979" by simp_all
  from time_weights_in_range [OF this] obtain ws
    where ws: "time_weights 2 = Inr (map Fin ws)" "length ws = 2" "hd ws = 0.5" "last ws = 1"
    by blast
  then obtain a b where "ws = [a, b]"
    by (cases ws; cases "tl ws") auto
  with ws show ?thesis by simp
qed

text \<open>
  C8 (recency weights), where the code departs from it. With 70,980 training samples the
  last exponential, \<open>np.exp(709.79)\<close>, is infinite: the maximum is infinite, every
  finite sample is rescaled to 0.5, and the most recent sample gets inf/inf, which is
  NaN, instead of 1.0.
\<close>

theorem time_weights_overflow:
  "time_weights 70980 = Inr (replicate 70979 (Fin 0.5) @ [NaN])"
proof -
  have split: "[0..<Suc 70979] = [0..<70979] @ [70979]"
    by (rule upt_Suc_append) simp
  have "map (\<lambda>i. if i < 70979 then Fin 0.5 else NaN) [0..<70979]
      = map (\<lambda>i. Fin 0.5) [0..<70979]"
    by (rule map_cong [OF refl]) simp
  also have "\<dots> = replicate 70979 (Fin 0.5)"
    by (simp only: map_replicate_const length_upt diff_zero)
  finally have "map (\<lambda>i. if i < 70979 then Fin 0.5 else NaN) [0..<Suc 70979]
      = replicate 70979 (Fin 0.5) @ [NaN]"
    unfolding split by simp
  moreover have "Suc 70979 = 70980" by simp
  ultimately have "map (\<lambda>i. if i < 70979 then Fin 0.5 else NaN) [0..<70980]
      = replicate 70979 (Fin 0.5) @ [NaN]" by (simp only:)
  with time_weights_overflow_rows [of 70980] show ?thesis by simp
qed

section \<open>Hourly aggregation\<close>

lemma fold_range_update:
  "fold (\<lambda>hour m. m(int hour \<mapsto> v)) [0..<n] m0 h =
     (if 0 \<le> h \<and> h < int n then Some v else m0 h)"
  by (induction n) auto

lemma initial_hourly_data_apply:
  "initial_hourly_data h = (if 0 \<le> h \<and> h \<le> 23 then Some empty_hour else None)"
  by (simp add: initial_hourly_data_def fold_range_update)

lemma process_trades_result:
  assumes "\<forall>t\<in>set ts. delivery_hour t \<in> dom m"
  shows "process_trades m ts =
     Inr (\<lambda>h. map_option (\<lambda>h0. foldl add_trade h0 (filter (\<lambda>t. delivery_hour t = h) ts)) (m h))"
  using assms
proof (induction ts arbitrary: m)
  case Nil
  have "(\<lambda>h. map_option (\<lambda>h0. h0) (m h)) = m"
    by (rule ext) (simp add: option.map_ident)
  then show ?case by simp
next
  case (Cons t ts)
  from Cons.prems obtain h0 where h0: "m (delivery_hour t) = Some h0" by auto
  let ?m = "m(delivery_hour t \<mapsto> add_trade h0 t)"
  have "\<forall>u\<in>set ts. delivery_hour u \<in> dom ?m" using Cons.prems by auto
  from Cons.IH [OF this]
  have "process_trades ?m ts =
      Inr (\<lambda>h. map_option (\<lambda>a. foldl add_trade a (filter (\<lambda>t. delivery_hour t = h) ts)) (?m h))" .
  moreover have
    "(\<lambda>h. map_option (\<lambda>a. foldl add_trade a (filter (\<lambda>t. delivery_hour t = h) ts)) (?m h)) =
     (\<lambda>h. map_option (\<lambda>a. foldl add_trade a (filter (\<lambda>u. delivery_hour u = h) (t # ts))) (m h))"
  proof (rule ext)
    fix h
    show "map_option (\<lambda>a. foldl add_trade a (filter (\<lambda>t. delivery_hour t = h) ts)) (?m h) =
          map_option (\<lambda>a. foldl add_trade a (filter (\<lambda>u. delivery_hour u = h) (t # ts))) (m h)"
      using h0 by (cases "h = delivery_hour t") auto
  qed
  ultimately show ?case using h0 by simp
qed

lemma foldl_add_trade_pnl:
  "pnl_eur (foldl add_trade h0 ts) =
     pnl_eur h0 + (\<Sum>t\<leftarrow>filter (\<lambda>t. side t \<noteq> ''buy'') ts. quantity t * price t)
       - (\<Sum>t\<leftarrow>filter (\<lambda>t. side t = ''buy'') ts. quantity t * price t)"
  by (induction ts arbitrary: h0) (auto simp add: add_trade_def Let_def)

lemma foldl_add_trade_count:
  "num_trades (foldl add_trade h0 ts) = num_trades h0 + length ts"
  by (induction ts arbitrary: h0) (auto simp add: add_trade_def Let_def)

lemma query_trades_hour:
  "filter (\<lambda>t. delivery_hour t = h) (query_trades tbl trader day) =
     filter (\<lambda>t. trader_id t = trader \<and> delivery_day t = day \<and> delivery_hour t = h) tbl"
  by (simp add: query_trades_def sort_key_stable conj_commute conj_left_commute)

lemma compute_hourly_pnl_result:
  assumes "\<forall>t\<in>set tbl. check_constraints t"
  shows "compute_hourly_pnl (Some tbl) trader day =
     Inr (\<lambda>h. if 0 \<le> h \<and> h \<le> 23
               then Some (foldl add_trade empty_hour
                  (filter (\<lambda>t. trader_id t = trader \<and> delivery_day t = date_isoformat day \<and>
                                delivery_hour t = h) tbl))
               else None)"
proof -
  have "\<forall>t\<in>set (query_trades tbl trader (date_isoformat day)).
          delivery_hour t \<in> dom initial_hourly_data"
    using assms
    by (auto simp add: query_trades_def check_constraints_def initial_hourly_data_apply dom_def)
  from process_trades_result [OF this]
  have "compute_hourly_pnl (Some tbl) trader day =
      Inr (\<lambda>h. map_option (\<lambda>a. foldl add_trade a
             (filter (\<lambda>t. delivery_hour t = h) (query_trades tbl trader (date_isoformat day))))
             (initial_hourly_data h))"
    by (simp add: compute_hourly_pnl_def)
  also have "(\<lambda>h. map_option (\<lambda>a. foldl add_trade a
             (filter (\<lambda>t. delivery_hour t = h) (query_trades tbl trader (date_isoformat day))))
             (initial_hourly_data h)) =
     (\<lambda>h. if 0 \<le> h \<and> h \<le> 23
               then Some (foldl add_trade empty_hour
                  (filter (\<lambda>t. trader_id t = trader \<and> delivery_day t = date_isoformat day \<and>
                                delivery_hour t = h) tbl))
               else None)"
    by (rule ext) (simp add: query_trades_hour initial_hourly_data_apply)
  finally show ?thesis .
qed

lemma fold_pnl_sum:
  "fold (\<lambda>t total. total + (if side t = ''sell'' then quantity t * price t
                             else - quantity t * price t)) ts acc =
     acc + (\<Sum>t\<leftarrow>filter (\<lambda>t. side t = ''sell'') ts. quantity t * price t)
         - (\<Sum>t\<leftarrow>filter (\<lambda>t. side t \<noteq> ''sell'') ts. quantity t * price t)"
  by (induction ts arbitrary: acc) auto

lemma filter_sides:
  assumes "\<forall>t\<in>set ts. check_constraints t"
  shows "filter (\<lambda>t. side t \<noteq> ''buy'') ts = filter (\<lambda>t. side t = ''sell'') ts"
    and "filter (\<lambda>t. side t \<noteq> ''sell'') ts = filter (\<lambda>t. side t = ''buy'') ts"
  using assms by (auto simp add: check_constraints_def intro!: filter_cong)

lemma date_isoformat_example: "date_isoformat 18793 = ''2021-06-15''"
  by code_simp

lemma hourly_example:
  "compute_hourly_pnl
     (Some [\<lparr>trade_id = ''T_DA_1'', trader_id = ''trader_1'', delivery_day = ''2021-06-15'',
              delivery_hour = 12, quantity = 10, price = 50, side = ''buy'', strategy = ''S'',
              exec_timestamp = ''2021-06-14T12:00:00''\<rparr>,
            \<lparr>trade_id = ''T_ID_1'', trader_id = ''trader_1'', delivery_day = ''2021-06-15'',
              delivery_hour = 12, quantity = 10, price = 60, side = ''sell'', strategy = ''S'',
              exec_timestamp = ''2021-06-14T14:00:00''\<rparr>]) ''trader_1'' 18793
   = Inr (\<lambda>h. if 0 \<le> h \<and> h \<le> 23 then
            Some (if h = 12 then \<lparr>num_trades = 2, buy_da_mw = 10, sell_da_mw = 0, buy_ida_mw = 0,
                                  sell_ida_mw = 10, pnl_eur = 100\<rparr> else empty_hour)
          else None)"
  by (subst compute_hourly_pnl_result)
     (auto simp add: check_constraints_def date_isoformat_example add_trade_def Let_def
        empty_hour_def)

text \<open>
  C6 (hourly PnL aggregation). On a table that meets its CHECK constraints, the
  aggregator returns an entry for every delivery hour 0 to 23 of the trader and day; an
  hour's trade count is the number of its trades, its PnL is the sum of quantity times
  price over its sell trades minus that sum over its buy trades, and an hour with no
  trade reports zero count, zero volumes and zero PnL. The strategy PnL of task1.py is
  the same difference over the rows of the strategy. For the trades buy 10 MW at 50 and
  sell 10 MW at 60 in one hour both give exactly 100.
\<close>

theorem hourly_pnl_aggregation:
  assumes "\<forall>t\<in>set tbl. check_constraints t"
  shows
   "(\<exists>m. compute_hourly_pnl (Some tbl) trader day = Inr m \<and> dom m = {0..23} \<and>
      (\<forall>h\<in>{0..23}. \<exists>entry. m h = Some entry \<and>
         num_trades entry =
           length (filter (\<lambda>t. trader_id t = trader \<and> delivery_day t = date_isoformat day \<and>
                               delivery_hour t = h) tbl) \<and>
         pnl_eur entry =
           (\<Sum>t\<leftarrow>filter (\<lambda>t. side t = ''sell'')
                 (filter (\<lambda>t. trader_id t = trader \<and> delivery_day t = date_isoformat day \<and>
                               delivery_hour t = h) tbl). quantity t * price t) -
           (\<Sum>t\<leftarrow>filter (\<lambda>t. side t = ''buy'')
                 (filter (\<lambda>t. trader_id t = trader \<and> delivery_day t = date_isoformat day \<and>
                               delivery_hour t = h) tbl). quantity t * price t) \<and>
         (filter (\<lambda>t. trader_id t = trader \<and> delivery_day t = date_isoformat day \<and>
                       delivery_hour t = h) tbl = [] \<longrightarrow> entry = empty_hour))) \<and>
    compute_pnl (Some tbl) strategy_id =
      Inr ((\<Sum>t\<leftarrow>filter (\<lambda>t. side t = ''sell'') (filter (\<lambda>t. strategy t = strategy_id) tbl).
              quantity t * price t) -
           (\<Sum>t\<leftarrow>filter (\<lambda>t. side t = ''buy'') (filter (\<lambda>t. strategy t = strategy_id) tbl).
              quantity t * price t)) \<and>
    (\<exists>m entry. compute_hourly_pnl
       (Some [\<lparr>trade_id = ''T_DA_1'', trader_id = ''trader_1'', delivery_day = ''2021-06-15'',
                delivery_hour = 12, quantity = 10, price = 50, side = ''buy'', strategy = ''S'',
                exec_timestamp = ''2021-06-14T12:00:00''\<rparr>,
              \<lparr>trade_id = ''T_ID_1'', trader_id = ''trader_1'', delivery_day = ''2021-06-15'',
                delivery_hour = 12, quantity = 10, price = 60, side = ''sell'', strategy = ''S'',
                exec_timestamp = ''2021-06-14T14:00:00''\<rparr>]) ''trader_1'' 18793 = Inr m \<and>
       m 12 = Some entry \<and> pnl_eur entry = 100)"
proof (intro conjI)
  let ?sel = "\<lambda>h. filter (\<lambda>t. trader_id t = trader \<and> delivery_day t = date_isoformat day \<and>
                               delivery_hour t = h) tbl"
  let ?m = "\<lambda>h. if 0 \<le> h \<and> h \<le> 23 then Some (foldl add_trade empty_hour (?sel h)) else None"
  have res: "compute_hourly_pnl (Some tbl) trader day = Inr ?m"
    by (rule compute_hourly_pnl_result [OF assms])
  have dom: "dom ?m = {0..23}"
    by (auto simp add: dom_def)
  have entries: "\<forall>h\<in>{0..23}. \<exists>entry. ?m h = Some entry \<and>
         num_trades entry = length (?sel h) \<and>
         pnl_eur entry =
           (\<Sum>t\<leftarrow>filter (\<lambda>t. side t = ''sell'') (?sel h). quantity t * price t) -
           (\<Sum>t\<leftarrow>filter (\<lambda>t. side t = ''buy'') (?sel h). quantity t * price t) \<and>
         (?sel h = [] \<longrightarrow> entry = empty_hour)"
  proof
    fix h :: int assume h: "h \<in> {0..23}"
    have c: "\<forall>t\<in>set (?sel h). check_constraints t" using assms by simp
    have "pnl_eur (foldl add_trade empty_hour (?sel h)) =
           (\<Sum>t\<leftarrow>filter (\<lambda>t. side t = ''sell'') (?sel h). quantity t * price t) -
           (\<Sum>t\<leftarrow>filter (\<lambda>t. side t = ''buy'') (?sel h). quantity t * price t)"
      by (simp only: foldl_add_trade_pnl filter_sides(1) [OF c]) (simp add: empty_hour_def)
    moreover have "num_trades (foldl add_trade empty_hour (?sel h)) = length (?sel h)"
      by (simp only: foldl_add_trade_count) (simp add: empty_hour_def)
    ultimately show "\<exists>entry. ?m h = Some entry \<and>
         num_trades entry = length (?sel h) \<and>
         pnl_eur entry =
           (\<Sum>t\<leftarrow>filter (\<lambda>t. side t = ''sell'') (?sel h). quantity t * price t) -
           (\<Sum>t\<leftarrow>filter (\<lambda>t. side t = ''buy'') (?sel h). quantity t * price t) \<and>
         (?sel h = [] \<longrightarrow> entry = empty_hour)"
      using h by auto
  qed
  show "\<exists>m. compute_hourly_pnl (Some tbl) trader day = Inr m \<and> dom m = {0..23} \<and>
      (\<forall>h\<in>{0..23}. \<exists>entry. m h = Some entry \<and>
         num_trades entry = length (?sel h) \<and>
         pnl_eur entry =
           (\<Sum>t\<leftarrow>filter (\<lambda>t. side t = ''sell'') (?sel h). quantity t * price t) -
           (\<Sum>t\<leftarrow>filter (\<lambda>t. side t = ''buy'') (?sel h). quantity t * price t) \<and>
         (?sel h = [] \<longrightarrow> entry = empty_hour))"
    using res dom entries by blast
next
  have c: "\<forall>t\<in>set (filter (\<lambda>t. strategy t = strategy_id) tbl). check_constraints t"
    using assms by simp
  show "compute_pnl (Some tbl) strategy_id =
      Inr ((\<Sum>t\<leftarrow>filter (\<lambda>t. side t = ''sell'') (filter (\<lambda>t. strategy t = strategy_id) tbl).
              quantity t * price t) -
           (\<Sum>t\<leftarrow>filter (\<lambda>t. side t = ''buy'') (filter (\<lambda>t. strategy t = strategy_id) tbl).
              quantity t * price t))"
    by (simp only: compute_pnl_def option.case fold_pnl_sum filter_sides(2) [OF c]) simp
next
  show "\<exists>m entry. compute_hourly_pnl
       (Some [\<lparr>trade_id = ''T_DA_1'', trader_id = ''trader_1'', delivery_day = ''2021-06-15'',
                delivery_hour = 12, quantity = 10, price = 50, side = ''buy'', strategy = ''S'',
                exec_timestamp = ''2021-06-14T12:00:00''\<rparr>,
              \<lparr>trade_id = ''T_ID_1'', trader_id = ''trader_1'', delivery_day = ''2021-06-15'',
                delivery_hour = 12, quantity = 10, price = 60, side = ''sell'', strategy = ''S'',
                exec_timestamp = ''2021-06-14T14:00:00''\<rparr>]) ''trader_1'' 18793 = Inr m \<and>
       m 12 = Some entry \<and> pnl_eur entry = 100"
    by (simp only: hourly_example) simp
qed

theorem hourly_pnl_aggregation_witness:
  "check_constraints \<lparr>trade_id = ''T_DA_1'', trader_id = ''trader_1'', delivery_day = ''2021-06-15'',
      delivery_hour = 12, quantity = 10, price = 50, side = ''buy'', strategy = ''S'',
      exec_timestamp = ''2021-06-14T12:00:00''\<rparr> \<and>
   check_constraints \<lparr>trade_id = ''T_ID_1'', trader_id = ''trader_1'', delivery_day = ''2021-06-15'',
      delivery_hour = 12, quantity = 10, price = 60, side = ''sell'', strategy = ''S'',
      exec_timestamp = ''2021-06-14T14:00:00''\<rparr> \<and>
   compute_pnl
     (Some [\<lparr>trade_id = ''T_DA_1'', trader_id = ''trader_1'', delivery_day = ''2021-06-15'',
              delivery_hour = 12, quantity = 10, price = 50, side = ''buy'', strategy = ''S'',
              exec_timestamp = ''2021-06-14T12:00:00''\<rparr>,
            \<lparr>trade_id = ''T_ID_1'', trader_id = ''trader_1'', delivery_day = ''2021-06-15'',
              delivery_hour = 12, quantity = 10, price = 60, side = ''sell'', strategy = ''S'',
              exec_timestamp = ''2021-06-14T14:00:00''\<rparr>]) ''S'' = Inr 100 \<and>
   (\<exists>m e12 e13. compute_hourly_pnl
     (Some [\<lparr>trade_id = ''T_DA_1'', trader_id = ''trader_1'', delivery_day = ''2021-06-15'',
              delivery_hour = 12, quantity = 10, price = 50, side = ''buy'', strategy = ''S'',
              exec_timestamp = ''2021-06-14T12:00:00''\<rparr>,
            \<lparr>trade_id = ''T_ID_1'', trader_id = ''trader_1'', delivery_day = ''2021-06-15'',
              delivery_hour = 12, quantity = 10, price = 60, side = ''sell'', strategy = ''S'',
              exec_timestamp = ''2021-06-14T14:00:00''\<rparr>]) ''trader_1'' 18793 = Inr m \<and>
      m 12 = Some e12 \<and> num_trades e12 = 2 \<and> pnl_eur e12 = 100 \<and>
      m 13 = Some e13 \<and> e13 = empty_hour)"
proof -
  let ?tbl = "[\<lparr>trade_id = ''T_DA_1'', trader_id = ''trader_1'', delivery_day = ''2021-06-15'',
              delivery_hour = 12, quantity = 10, price = 50, side = ''buy'', strategy = ''S'',
              exec_timestamp = ''2021-06-14T12:00:00''\<rparr>,
            \<lparr>trade_id = ''T_ID_1'', trader_id = ''trader_1'', delivery_day = ''2021-06-15'',
              delivery_hour = 12, quantity = (10::real), price = (60::real), side = ''sell'',
              strategy = ''S'', exec_timestamp = ''2021-06-14T14:00:00''\<rparr>]"
  have c: "\<forall>t\<in>set ?tbl. check_constraints t"
    by (simp add: check_constraints_def)
  from hourly_pnl_aggregation [OF c, of "''trader_1''" 18793 "''S''"]
  obtain m where m: "compute_hourly_pnl (Some ?tbl) ''trader_1'' 18793 = Inr m"
    and e: "\<forall>h\<in>{0..23}. \<exists>entry. m h = Some entry \<and>
         num_trades entry =
           length (filter (\<lambda>t. trader_id t = ''trader_1'' \<and> delivery_day t = date_isoformat 18793 \<and>
                               delivery_hour t = h) ?tbl) \<and>
         pnl_eur entry =
           (\<Sum>t\<leftarrow>filter (\<lambda>t. side t = ''sell'')
                 (filter (\<lambda>t. trader_id t = ''trader_1'' \<and> delivery_day t = date_isoformat 18793 \<and>
                               delivery_hour t = h) ?tbl). quantity t * price t) -
           (\<Sum>t\<leftarrow>filter (\<lambda>t. side t = ''buy'')
                 (filter (\<lambda>t. trader_id t = ''trader_1'' \<and> delivery_day t = date_isoformat 18793 \<and>
                               delivery_hour t = h) ?tbl). quantity t * price t) \<and>
         (filter (\<lambda>t. trader_id t = ''trader_1'' \<and> delivery_day t = date_isoformat 18793 \<and>
                       delivery_hour t = h) ?tbl = [] \<longrightarrow> entry = empty_hour)"
    and p: "compute_pnl (Some ?tbl) ''S'' =
      Inr ((\<Sum>t\<leftarrow>filter (\<lambda>t. side t = ''sell'') (filter (\<lambda>t. strategy t = ''S'') ?tbl).
              quantity t * price t) -
           (\<Sum>t\<leftarrow>filter (\<lambda>t. side t = ''buy'') (filter (\<lambda>t. strategy t = ''S'') ?tbl).
              quantity t * price t))"
    by blast
  from bspec [OF e, of 12]
  have "\<exists>entry. m 12 = Some entry \<and> num_trades entry = 2 \<and> pnl_eur entry = 100"
    by (simp add: date_isoformat_example numeral_2_eq_2)
  moreover from bspec [OF e, of 13]
  have "\<exists>entry. m 13 = Some entry \<and> entry = empty_hour"
    by (simp add: date_isoformat_example)
  moreover from p have "compute_pnl (Some ?tbl) ''S'' = Inr 100" by simp
  ultimately show ?thesis using m c by auto
qed

section \<open>Text of the identifiers\<close>

lemma digit_char_digit: "d < 10 \<Longrightarrow> digit_char d \<in> set ''0123456789''"
  unfolding digit_char_def by (rule nth_mem) simp

lemma digit_char_inj:
  assumes "a < 10" and "b < 10" and "digit_char a = digit_char b"
  shows "a = b"
proof -
  have d: "distinct ''0123456789''" by simp
  have "a < length ''0123456789''" and "b < length ''0123456789''"
    using assms by simp_all
  with d assms(3) show ?thesis
    unfolding digit_char_def by (simp only: nth_eq_iff_index_eq)
qed

lemma str_nat_digits: "set (str_nat n) \<subseteq> set ''0123456789''"
proof (induction n rule: str_nat.induct)
  case (1 n)
  show ?case
  proof (cases "n < 10")
    case True
    then show ?thesis
      using digit_char_digit [of n] by (subst str_nat.simps) simp
  next
    case False
    have "n mod 10 < 10" by simp
    from digit_char_digit [OF this] 1 [OF False] False show ?thesis
      by (subst str_nat.simps) simp
  qed
qed

lemma str_nat_nonempty: "str_nat n \<noteq> []"
  by (subst str_nat.simps) simp

lemma str_nat_inj: "str_nat m = str_nat n \<Longrightarrow> m = n"
proof (induction m arbitrary: n rule: str_nat.induct)
  case (1 m)
  show ?case
  proof (cases "m < 10")
    case m: True
    show ?thesis
    proof (cases "n < 10")
      case True
      with m "1.prems" have "digit_char m = digit_char n"
        by (simp add: str_nat.simps [of m] str_nat.simps [of n])
      with m True show ?thesis by (rule digit_char_inj)
    next
      case False
      with m "1.prems" str_nat_nonempty [of "n div 10"] show ?thesis
        by (simp add: str_nat.simps [of m] str_nat.simps [of n])
    qed
  next
    case m: False
    show ?thesis
    proof (cases "n < 10")
      case True
      with m "1.prems" str_nat_nonempty [of "m div 10"] show ?thesis
        by (simp add: str_nat.simps [of m] str_nat.simps [of n])
    next
      case False
      with m "1.prems" have q: "str_nat (m div 10) = str_nat (n div 10)"
        and r: "digit_char (m mod 10) = digit_char (n mod 10)"
        by (simp_all add: str_nat.simps [of m] str_nat.simps [of n])
      from "1.IH" [OF m q] have "m div 10 = n div 10" .
      moreover have "m mod 10 = n mod 10"
        by (rule digit_char_inj [OF _ _ r]) simp_all
      ultimately show ?thesis by (metis div_mult_mod_eq)
    qed
  qed
qed

lemma digits_subset: "set ''0123456789'' \<subseteq> set ''0123456789-''"
  by simp

lemma str_int_chars: "set (str_int i) \<subseteq> set ''0123456789-''"
proof (cases "i < 0")
  case True
  have "set (str_nat (nat (- i))) \<subseteq> set ''0123456789-''"
    using str_nat_digits digits_subset by (rule subset_trans)
  moreover have "CHR ''-'' \<in> set ''0123456789-''" by simp
  ultimately have "set (CHR ''-'' # str_nat (nat (- i))) \<subseteq> set ''0123456789-''"
    by (simp only: list.set insert_subset simp_thms)
  with True show ?thesis by (simp only: str_int_def if_True)
next
  case False
  have "set (str_nat (nat i)) \<subseteq> set ''0123456789-''"
    using str_nat_digits digits_subset by (rule subset_trans)
  with False show ?thesis by (simp only: str_int_def if_False)
qed

lemma minus_not_digit: "CHR ''-'' \<notin> set (str_nat n)"
proof -
  have "CHR ''-'' \<notin> set ''0123456789''" by simp
  with str_nat_digits [of n] show ?thesis by blast
qed

lemma str_int_inj: "str_int i = str_int j \<Longrightarrow> i = j"
proof -
  assume eq: "str_int i = str_int j"
  have hd_nat: "hd (str_nat n) \<noteq> CHR ''-''" for n
  proof -
    have "hd (str_nat n) \<in> set (str_nat n)" by (rule hd_in_set [OF str_nat_nonempty])
    with minus_not_digit [of n] show ?thesis by metis
  qed
  show "i = j"
  proof (cases "i < 0")
    case i: True
    show ?thesis
    proof (cases "j < 0")
      case True
      with i eq have "str_nat (nat (- i)) = str_nat (nat (- j))" by (simp add: str_int_def)
      then have "nat (- i) = nat (- j)" by (rule str_nat_inj)
      with i True show ?thesis by simp
    next
      case False
      with i eq have "CHR ''-'' # str_nat (nat (- i)) = str_nat (nat j)" by (simp add: str_int_def)
      then have "hd (str_nat (nat j)) = CHR ''-''" by (metis list.sel(1))
      with hd_nat show ?thesis by simp
    qed
  next
    case i: False
    show ?thesis
    proof (cases "j < 0")
      case True
      with i eq have "str_nat (nat i) = CHR ''-'' # str_nat (nat (- j))" by (simp add: str_int_def)
      then have "hd (str_nat (nat i)) = CHR ''-''" by (metis list.sel(1))
      with hd_nat show ?thesis by simp
    next
      case False
      with i eq have "str_nat (nat i) = str_nat (nat j)" by (simp add: str_int_def)
      then have "nat i = nat j" by (rule str_nat_inj)
      with i False show ?thesis by simp
    qed
  qed
qed

lemma zfill_chars: "set (zfill w s) \<subseteq> insert CHR ''0'' (set s)"
  by (auto simp add: zfill_def)

lemma zfill_str_int_chars: "set (zfill w (str_int i)) \<subseteq> set ''0123456789-''"
proof -
  have "insert CHR ''0'' (set (str_int i)) \<subseteq> set ''0123456789-''"
    using str_int_chars [of i] by simp
  with zfill_chars [of w "str_int i"] show ?thesis by (rule subset_trans)
qed

lemma strftime_chars: "set (strftime ts) \<subseteq> set ''0123456789-_''"
proof -
  define A where "A = set ''0123456789-_''"
  obtain y m d where c: "civil_from_days (ts div 86400) = (y, m, d)"
    by (cases "civil_from_days (ts div 86400)") auto
  have sub: "set ''0123456789-'' \<subseteq> A" unfolding A_def by simp
  have z: "set (zfill w (str_int i)) \<subseteq> A" for w i
    using zfill_str_int_chars [of w i] sub by (rule subset_trans)
  have u: "set ''_'' \<subseteq> A" unfolding A_def by simp
  have "strftime ts =
      zfill 4 (str_int y) @ zfill 2 (str_int m) @ zfill 2 (str_int d) @ ''_'' @
      zfill 2 (str_int (ts mod 86400 div 3600)) @
      zfill 2 (str_int (ts mod 86400 mod 3600 div 60)) @
      zfill 2 (str_int (ts mod 86400 mod 60))"
    unfolding strftime_def c Let_def by (simp only: prod.case)
  then have "set (strftime ts) \<subseteq> A"
    using z u by (simp only: set_append Un_subset_iff simp_thms)
  then show ?thesis unfolding A_def .
qed

lemma contains_chars: "contains sub s \<Longrightarrow> set sub \<subseteq> set s"
proof (induction s)
  case Nil
  then show ?case by simp
next
  case (Cons c cs)
  from Cons.prems have "take (length sub) (c # cs) = sub \<or> contains sub cs" by simp
  then show ?case
  proof
    assume "take (length sub) (c # cs) = sub"
    then have "set sub = set (take (length sub) (c # cs))" by simp
    also have "\<dots> \<subseteq> set (c # cs)" by (rule set_take_subset)
    finally show ?thesis .
  next
    assume "contains sub cs"
    from Cons.IH [OF this] show ?thesis by auto
  qed
qed

lemma split_at_last:
  assumes eq: "xs @ c # ys = xs' @ c # ys'" and "c \<notin> set ys" and "c \<notin> set ys'"
  shows "xs = xs' \<and> ys = ys'"
proof -
  have tw: "takeWhile (\<lambda>x. x \<noteq> c) (rev zs @ c # rest) = rev zs" if "c \<notin> set zs" for zs rest
  proof -
    have "takeWhile (\<lambda>x. x \<noteq> c) (rev zs @ c # rest) = takeWhile (\<lambda>x. x \<noteq> c) (rev zs)"
      by (rule takeWhile_tail) simp
    also have "\<dots> = rev zs" using that by auto
    finally show ?thesis .
  qed
  from eq have "rev (xs @ c # ys) = rev (xs' @ c # ys')" by (rule arg_cong)
  then have r: "rev ys @ c # rev xs = rev ys' @ c # rev xs'" by simp
  then have "takeWhile (\<lambda>x. x \<noteq> c) (rev ys @ c # rev xs)
      = takeWhile (\<lambda>x. x \<noteq> c) (rev ys' @ c # rev xs')" by (rule arg_cong)
  then have "rev ys = rev ys'"
    using tw [OF assms(2), of "rev xs"] tw [OF assms(3), of "rev xs'"] by simp
  then have ys: "ys = ys'" by simp
  with eq have "xs = xs'" by simp
  with ys show ?thesis by simp
qed

lemma id_parts_eq:
  assumes "pre @ CHR ''_'' # str_int i @ CHR ''_'' # tag
         = pre' @ CHR ''_'' # str_int j @ CHR ''_'' # tag'"
    and "CHR ''_'' \<notin> set tag" and "CHR ''_'' \<notin> set tag'"
  shows "pre = pre' \<and> i = j \<and> tag = tag'"
proof -
  have "(pre @ CHR ''_'' # str_int i) @ CHR ''_'' # tag
      = (pre' @ CHR ''_'' # str_int j) @ CHR ''_'' # tag'"
    using assms(1) by simp
  from split_at_last [OF this assms(2,3)]
  have a: "pre @ CHR ''_'' # str_int i = pre' @ CHR ''_'' # str_int j" and t: "tag = tag'"
    by simp_all
  have u: "CHR ''_'' \<notin> set ''0123456789-''" by simp
  have "CHR ''_'' \<notin> set (str_int i)" and "CHR ''_'' \<notin> set (str_int j)"
    using str_int_chars [of i] str_int_chars [of j] u by blast+
  from split_at_last [OF a this] have "pre = pre'" and "str_int i = str_int j" by simp_all
  with t str_int_inj show ?thesis by blast
qed

section \<open>Uniqueness of the trade identifiers\<close>

lemma convert_to_trades_Cons:
  "convert_to_trades s ((idx, row) # df) = row_trades s idx row @ convert_to_trades s df"
  by (auto simp add: convert_to_trades_def row_trades_def Let_def)

lemma convert_to_trades_Nil: "convert_to_trades s [] = []"
  by (simp add: convert_to_trades_def)

lemma row_trades_id_shape:
  assumes "t \<in> set (row_trades s idx row)"
  shows "\<exists>pre tag. trade_id t = pre @ CHR ''_'' # str_int idx @ CHR ''_'' # tag \<and>
           CHR ''_'' \<notin> set tag"
proof -
  let ?st = "strftime (timestamp row - timedelta 1 0)"
  from assms have
    "trade_id t = (''ML_DA_'' @ ?st) @ CHR ''_'' # str_int idx @ CHR ''_'' # ''BUY'' \<or>
     trade_id t = (''ML_ID_'' @ ?st) @ CHR ''_'' # str_int idx @ CHR ''_'' # ''SELL'' \<or>
     trade_id t = (''ML_DA_'' @ ?st) @ CHR ''_'' # str_int idx @ CHR ''_'' # ''SELL'' \<or>
     trade_id t = (''ML_ID_'' @ ?st) @ CHR ''_'' # str_int idx @ CHR ''_'' # ''BUY''"
    by (auto simp add: row_trades_def Let_def split: if_splits)
  moreover have "CHR ''_'' \<notin> set ''BUY''" and "CHR ''_'' \<notin> set ''SELL''" by simp_all
  ultimately show ?thesis by blast
qed

lemma convert_to_trades_id_shape:
  assumes "t \<in> set (convert_to_trades s df)"
  shows "\<exists>idx\<in>fst ` set df. \<exists>pre tag.
           trade_id t = pre @ CHR ''_'' # str_int idx @ CHR ''_'' # tag \<and> CHR ''_'' \<notin> set tag"
  using assms
proof (induction df)
  case Nil
  then show ?case by (simp add: convert_to_trades_Nil)
next
  case (Cons x df)
  obtain idx row where x: "x = (idx, row)" by (cases x)
  from Cons.prems have "t \<in> set (row_trades s idx row) \<or> t \<in> set (convert_to_trades s df)"
    by (simp add: x convert_to_trades_Cons)
  then show ?case
  proof
    assume "t \<in> set (row_trades s idx row)"
    from row_trades_id_shape [OF this] show ?thesis by (simp add: x)
  next
    assume "t \<in> set (convert_to_trades s df)"
    from Cons.IH [OF this] show ?thesis by auto
  qed
qed

lemma row_trades_distinct: "distinct (map trade_id (row_trades s idx row))"
  by (simp add: row_trades_def Let_def)

lemma convert_to_trades_distinct:
  assumes "distinct (map fst df)"
  shows "distinct (map trade_id (convert_to_trades s df))"
  using assms
proof (induction df)
  case Nil
  then show ?case by (simp add: convert_to_trades_Nil)
next
  case (Cons x df)
  obtain idx row where x: "x = (idx, row)" by (cases x)
  from Cons.prems have fresh: "idx \<notin> fst ` set df" and d: "distinct (map fst df)"
    by (simp_all add: x)
  have disj: "trade_id t \<noteq> trade_id u"
    if t: "t \<in> set (row_trades s idx row)" and u: "u \<in> set (convert_to_trades s df)" for t u
  proof
    assume eq: "trade_id t = trade_id u"
    from row_trades_id_shape [OF t] obtain pre tag where
      a: "trade_id t = pre @ CHR ''_'' # str_int idx @ CHR ''_'' # tag" "CHR ''_'' \<notin> set tag"
      by blast
    from convert_to_trades_id_shape [OF u] obtain j pre' tag' where
      b: "j \<in> fst ` set df" "trade_id u = pre' @ CHR ''_'' # str_int j @ CHR ''_'' # tag'"
         "CHR ''_'' \<notin> set tag'"
      by blast
    from eq a(1) b(2) have
      "pre @ CHR ''_'' # str_int idx @ CHR ''_'' # tag = pre' @ CHR ''_'' # str_int j @ CHR ''_'' # tag'"
      by simp
    from id_parts_eq [OF this a(2) b(3)] have "idx = j" by simp
    with fresh b(1) show False by simp
  qed
  have "set (map trade_id (row_trades s idx row)) \<inter> set (map trade_id (convert_to_trades s df)) = {}"
    using disj by auto
  with row_trades_distinct [of s idx row] Cons.IH [OF d] show ?case
    by (simp add: x convert_to_trades_Cons)
qed

lemma convert_to_trades_length:
  "length (convert_to_trades s df) =
     2 * length (filter (\<lambda>(idx, row). signal row = 1 \<or> signal row = - 1) df)"
proof (induction df)
  case Nil
  then show ?case by (simp add: convert_to_trades_Nil)
next
  case (Cons x df)
  obtain idx row where x: "x = (idx, row)" by (cases x)
  have "length (row_trades s idx row) = (if signal row = 1 \<or> signal row = - 1 then 2 else 0)"
    by (simp add: row_trades_def Let_def)
  with Cons.IH show ?case by (simp add: x convert_to_trades_Cons)
qed

lemma insert_rows_no_collision:
  assumes "distinct (map trade_id (tbl @ ts))"
  shows "insert_rows tbl ts \<noteq> Inl (IntegrityError_unique k)"
  using assms
proof (induction ts arbitrary: tbl)
  case Nil
  then show ?case by simp
next
  case (Cons t ts)
  from Cons.prems have "trade_id t \<notin> set (map trade_id tbl)"
    and "distinct (map trade_id ((tbl @ [t]) @ ts))" by auto
  with Cons.IH [of "tbl @ [t]"] show ?case by simp
qed

lemma insert_rows_ok:
  assumes "distinct (map trade_id (tbl @ ts))" and "\<forall>t\<in>set ts. check_constraints t"
  shows "insert_rows tbl ts = Inr (tbl @ ts)"
  using assms
proof (induction ts arbitrary: tbl)
  case Nil
  then show ?case by simp
next
  case (Cons t ts)
  from Cons.prems have "trade_id t \<notin> set (map trade_id tbl)"
    and "distinct (map trade_id ((tbl @ [t]) @ ts))"
    and "check_constraints t" and "\<forall>u\<in>set ts. check_constraints u" by auto
  with Cons.IH [of "tbl @ [t]"] show ?case by simp
qed

lemma row_trades_constraints:
  assumes "0 \<le> hour row" and "hour row \<le> 23" and "t \<in> set (row_trades s idx row)"
  shows "check_constraints t"
  using assms by (auto simp add: row_trades_def Let_def check_constraints_def split: if_splits)

lemma convert_to_trades_constraints:
  assumes "\<forall>(idx, row)\<in>set df. 0 \<le> hour row \<and> hour row \<le> 23"
  shows "\<forall>t\<in>set (convert_to_trades s df). check_constraints t"
  using assms
proof (induction df)
  case Nil
  then show ?case by (simp add: convert_to_trades_Nil)
next
  case (Cons x df)
  obtain idx row where x: "x = (idx, row)" by (cases x)
  from Cons.prems have h: "0 \<le> hour row" "hour row \<le> 23"
    and r: "\<forall>(idx, row)\<in>set df. 0 \<le> hour row \<and> hour row \<le> 23" by (simp_all add: x)
  from Cons.IH [OF r] row_trades_constraints [OF h] show ?case
    by (auto simp add: x convert_to_trades_Cons)
qed

text \<open>
  C9 (uniqueness of trade identifiers). For rows with pairwise distinct index labels the
  identifiers of the generated trades are pairwise distinct, two for each row with signal
  1 or -1, so inserting them into the freshly initialised table never fails on the
  primary key; when the hours of the rows lie in 0..23 the insertion stores all of them.
\<close>

theorem trade_ids_unique:
  "distinct (map fst df_results) \<Longrightarrow>
     distinct (map trade_id (convert_to_trades s df_results)) \<and>
     length (convert_to_trades s df_results) =
       2 * length (filter (\<lambda>(idx, row). signal row = 1 \<or> signal row = - 1) df_results) \<and>
     (\<forall>k. snd (insert_trades_to_db [] (convert_to_trades s df_results))
             \<noteq> Inl (IntegrityError_unique k)) \<and>
     ((\<forall>(idx, row)\<in>set df_results. 0 \<le> hour row \<and> hour row \<le> 23) \<longrightarrow>
        fst (insert_trades_to_db [] (convert_to_trades s df_results))
          = convert_to_trades s df_results)"
proof -
  assume d: "distinct (map fst df_results)"
  let ?ts = "convert_to_trades s df_results"
  have ids: "distinct (map trade_id ?ts)" by (rule convert_to_trades_distinct [OF d])
  then have ids': "distinct (map trade_id ([] @ ?ts))" by simp
  have nocol: "snd (insert_trades_to_db [] ?ts) \<noteq> Inl (IntegrityError_unique k)" for k
    using insert_rows_no_collision [OF ids', of k]
    by (auto simp add: insert_trades_to_db_def split: sum.splits)
  have ok: "fst (insert_trades_to_db [] ?ts) = ?ts"
    if "\<forall>(idx, row)\<in>set df_results. 0 \<le> hour row \<and> hour row \<le> 23"
    using insert_rows_ok [OF ids' convert_to_trades_constraints [OF that]]
    by (simp add: insert_trades_to_db_def)
  show ?thesis
    using ids convert_to_trades_length [of s df_results] nocol ok by blast
qed

lemma strftime_example: "strftime 1623672000 = ''20210614_120000''"
  by code_simp

lemma str_int_examples: "str_int 0 = ''0''" "str_int 1 = ''1''"
  by code_simp+

theorem trade_ids_unique_witness:
  "distinct (map fst
     [(0::int, \<lparr>timestamp = 1623758400, date = 18793, hour = 12, da_price = 50, id_price_h = 60,
           spread = 10, other_features = [], signal = 1, prob = 0.6\<rparr>),
      (1, \<lparr>timestamp = 1623758400, date = 18793, hour = 12, da_price = 50, id_price_h = 40,
           spread = - 10, other_features = [], signal = - 1, prob = 0.4\<rparr>)]) \<and>
   map trade_id (convert_to_trades ''ML_Daily_XGBoost''
     [(0, \<lparr>timestamp = 1623758400, date = 18793, hour = 12, da_price = 50, id_price_h = 60,
           spread = 10, other_features = [], signal = 1, prob = 0.6\<rparr>),
      (1, \<lparr>timestamp = 1623758400, date = 18793, hour = 12, da_price = 50, id_price_h = 40,
           spread = - 10, other_features = [], signal = - 1, prob = 0.4\<rparr>)]) =
     [''ML_DA_20210614_120000_0_BUY'', ''ML_ID_20210614_120000_0_SELL'',
      ''ML_DA_20210614_120000_1_SELL'', ''ML_ID_20210614_120000_1_BUY''] \<and>
   distinct (map trade_id (convert_to_trades ''ML_Daily_XGBoost''
     [(0, \<lparr>timestamp = 1623758400, date = 18793, hour = 12, da_price = 50, id_price_h = 60,
           spread = 10, other_features = [], signal = 1, prob = 0.6\<rparr>),
      (1, \<lparr>timestamp = 1623758400, date = 18793, hour = 12, da_price = 50, id_price_h = 40,
           spread = - 10, other_features = [], signal = - 1, prob = 0.4\<rparr>)])) \<and>
   length (convert_to_trades ''ML_Daily_XGBoost''
     [(0, \<lparr>timestamp = 1623758400, date = 18793, hour = 12, da_price = 50, id_price_h = 60,
           spread = 10, other_features = [], signal = 1, prob = 0.6\<rparr>),
      (1, \<lparr>timestamp = 1623758400, date = 18793, hour = 12, da_price = 50, id_price_h = 40,
           spread = - 10, other_features = [], signal = - 1, prob = 0.4\<rparr>)]) = 4 \<and>
   fst (insert_trades_to_db [] (convert_to_trades ''ML_Daily_XGBoost''
     [(0, \<lparr>timestamp = 1623758400, date = 18793, hour = 12, da_price = 50, id_price_h = 60,
           spread = 10, other_features = [], signal = 1, prob = 0.6\<rparr>),
      (1, \<lparr>timestamp = 1623758400, date = 18793, hour = 12, da_price = 50, id_price_h = 40,
           spread = - 10, other_features = [], signal = - 1, prob = 0.4\<rparr>)])) =
     convert_to_trades ''ML_Daily_XGBoost''
     [(0, \<lparr>timestamp = 1623758400, date = 18793, hour = 12, da_price = 50, id_price_h = 60,
           spread = 10, other_features = [], signal = 1, prob = 0.6\<rparr>),
      (1, \<lparr>timestamp = 1623758400, date = 18793, hour = 12, da_price = 50, id_price_h = 40,
           spread = - 10, other_features = [], signal = - 1, prob = 0.4\<rparr>)]"
proof -
  let ?df = "[(0::int, \<lparr>timestamp = 1623758400, date = 18793, hour = 12, da_price = 50,
           id_price_h = 60, spread = 10, other_features = [], signal = 1, prob = 0.6\<rparr>),
      (1, \<lparr>timestamp = 1623758400, date = 18793, hour = 12, da_price = 50, id_price_h = 40,
           spread = - 10, other_features = [], signal = - 1, prob = 0.4\<rparr>)]"
  have d: "distinct (map fst ?df)" by simp
  have ids: "map trade_id (convert_to_trades ''ML_Daily_XGBoost'' ?df) =
     [''ML_DA_20210614_120000_0_BUY'', ''ML_ID_20210614_120000_0_SELL'',
      ''ML_DA_20210614_120000_1_SELL'', ''ML_ID_20210614_120000_1_BUY'']"
    by (simp add: convert_to_trades_def row_trades_def Let_def timedelta_def strftime_example
        str_int_examples)
  from trade_ids_unique [OF d, of "''ML_Daily_XGBoost''"] d ids show ?thesis
    by simp
qed

section \<open>Leg markers\<close>

lemma marker_da:
  assumes "CHR ''I'' \<notin> set rest"
  shows "contains ''_DA_'' (''ML_DA_'' @ rest)" and "\<not> contains ''_ID_'' (''ML_DA_'' @ rest)"
proof -
  show "contains ''_DA_'' (''ML_DA_'' @ rest)" by simp
  have "CHR ''I'' \<notin> set (''ML_DA_'' @ rest)" using assms by simp
  moreover have "CHR ''I'' \<in> set ''_ID_''" by simp
  ultimately show "\<not> contains ''_ID_'' (''ML_DA_'' @ rest)"
    using contains_chars [of "''_ID_''" "''ML_DA_'' @ rest"] by blast
qed

lemma marker_id:
  assumes "CHR ''A'' \<notin> set rest"
  shows "contains ''_ID_'' (''ML_ID_'' @ rest)" and "\<not> contains ''_DA_'' (''ML_ID_'' @ rest)"
proof -
  show "contains ''_ID_'' (''ML_ID_'' @ rest)" by simp
  have "CHR ''A'' \<notin> set (''ML_ID_'' @ rest)" using assms by simp
  moreover have "CHR ''A'' \<in> set ''_DA_''" by simp
  ultimately show "\<not> contains ''_DA_'' (''ML_ID_'' @ rest)"
    using contains_chars [of "''_DA_''" "''ML_ID_'' @ rest"] by blast
qed

lemma id_rest_chars:
  assumes "c \<notin> set ''0123456789-_''" and "c \<notin> set tag"
  shows "c \<notin> set (strftime ts @ ''_'' @ str_int idx @ tag)"
proof -
  have "set ''0123456789-'' \<subseteq> set ''0123456789-_''" by simp
  with str_int_chars [of idx] have "set (str_int idx) \<subseteq> set ''0123456789-_''"
    by (rule subset_trans)
  with assms(1) have a: "c \<notin> set (str_int idx)" by blast
  from strftime_chars [of ts] assms(1) have b: "c \<notin> set (strftime ts)" by blast
  have "CHR ''_'' \<in> set ''0123456789-_''" by simp
  with assms(1) have "c \<noteq> CHR ''_''" by metis
  with a b assms(2) show ?thesis by simp
qed

lemma id_rest_no_I:
  "CHR ''I'' \<notin> set (strftime ts @ ''_'' @ str_int idx @ ''_BUY'')"
  "CHR ''I'' \<notin> set (strftime ts @ ''_'' @ str_int idx @ ''_SELL'')"
  by (rule id_rest_chars; simp)+

lemma id_rest_no_A:
  "CHR ''A'' \<notin> set (strftime ts @ ''_'' @ str_int idx @ ''_BUY'')"
  "CHR ''A'' \<notin> set (strftime ts @ ''_'' @ str_int idx @ ''_SELL'')"
  by (rule id_rest_chars; simp)+

lemmas leg_markers =
  marker_da [OF id_rest_no_I(1)] marker_da [OF id_rest_no_I(2)]
  marker_id [OF id_rest_no_A(1)] marker_id [OF id_rest_no_A(2)]

lemma row_trades_long:
  assumes "signal row = 1"
  shows "row_trades s idx row =
    [ \<lparr> trade_id = ''ML_DA_'' @ strftime (timestamp row - timedelta 1 0) @ ''_'' @ str_int idx @ ''_BUY'',
        trader_id = ''strategy_ml_daily'', delivery_day = date_isoformat (date row),
        delivery_hour = hour row, quantity = position_size, price = da_price row,
        side = ''buy'', strategy = s,
        exec_timestamp = isoformat (timestamp row - timedelta 1 0) \<rparr>,
      \<lparr> trade_id = ''ML_ID_'' @ strftime (timestamp row - timedelta 1 0) @ ''_'' @ str_int idx @ ''_SELL'',
        trader_id = ''strategy_ml_daily'', delivery_day = date_isoformat (date row),
        delivery_hour = hour row, quantity = position_size, price = id_price_h row,
        side = ''sell'', strategy = s,
        exec_timestamp = isoformat (timestamp row - timedelta 1 0 + timedelta 0 2) \<rparr> ]"
  by (simp add: row_trades_def Let_def assms)

lemma row_trades_short:
  assumes "signal row = - 1"
  shows "row_trades s idx row =
    [ \<lparr> trade_id = ''ML_DA_'' @ strftime (timestamp row - timedelta 1 0) @ ''_'' @ str_int idx @ ''_SELL'',
        trader_id = ''strategy_ml_daily'', delivery_day = date_isoformat (date row),
        delivery_hour = hour row, quantity = position_size, price = da_price row,
        side = ''sell'', strategy = s,
        exec_timestamp = isoformat (timestamp row - timedelta 1 0) \<rparr>,
      \<lparr> trade_id = ''ML_ID_'' @ strftime (timestamp row - timedelta 1 0) @ ''_'' @ str_int idx @ ''_BUY'',
        trader_id = ''strategy_ml_daily'', delivery_day = date_isoformat (date row),
        delivery_hour = hour row, quantity = position_size, price = id_price_h row,
        side = ''buy'', strategy = s,
        exec_timestamp = isoformat (timestamp row - timedelta 1 0 + timedelta 0 2) \<rparr> ]"
  by (simp add: row_trades_def Let_def assms)

lemma row_trades_markers:
  assumes "t \<in> set (row_trades s idx row)"
  shows "contains ''_DA_'' (trade_id t) \<noteq> contains ''_ID_'' (trade_id t)"
proof -
  consider "signal row = 1" | "signal row = - 1" | "signal row \<noteq> 1" "signal row \<noteq> - 1"
    by blast
  then show ?thesis
  proof cases
    case 1
    from assms show ?thesis
      unfolding row_trades_long [OF 1] by (auto simp only: list.set trade.simps leg_markers)
  next
    case 2
    from assms show ?thesis
      unfolding row_trades_short [OF 2] by (auto simp only: list.set trade.simps leg_markers)
  next
    case 3
    with assms show ?thesis by (simp add: row_trades_def Let_def)
  qed
qed

lemma convert_to_trades_markers:
  "\<forall>t\<in>set (convert_to_trades s df).
      contains ''_DA_'' (trade_id t) \<noteq> contains ''_ID_'' (trade_id t)"
proof (induction df)
  case Nil
  then show ?case by (simp add: convert_to_trades_Nil)
next
  case (Cons x df)
  obtain idx row where x: "x = (idx, row)" by (cases x)
  from Cons.IH row_trades_markers [of _ s idx row] show ?case
    unfolding x convert_to_trades_Cons set_append by blast
qed

text \<open>
  C10 (leg markers). Every trade of the converter carries exactly one of the markers
  \<open>_DA_\<close> and \<open>_ID_\<close> in its identifier: the day-ahead leg (priced at \<open>da_price\<close>)
  carries \<open>_DA_\<close> and the intraday leg (priced at \<open>id_price_h\<close>) carries \<open>_ID_\<close>.
  The aggregator therefore adds the quantity of each leg to exactly one of its four
  volume fields: buy day-ahead and sell intraday for signal 1, sell day-ahead and buy
  intraday for signal -1.
\<close>

theorem leg_marker_total:
  "(signal row = 1 \<longrightarrow>
      (\<exists>da_leg id_leg. convert_to_trades s [(idx, row)] = [da_leg, id_leg] \<and>
         price da_leg = da_price row \<and> price id_leg = id_price_h row \<and>
         contains ''_DA_'' (trade_id da_leg) \<and> \<not> contains ''_ID_'' (trade_id da_leg) \<and>
         contains ''_ID_'' (trade_id id_leg) \<and> \<not> contains ''_DA_'' (trade_id id_leg) \<and>
         add_trade h da_leg =
           h\<lparr> num_trades := num_trades h + 1, buy_da_mw := buy_da_mw h + position_size,
              pnl_eur := pnl_eur h - position_size * da_price row \<rparr> \<and>
         add_trade h id_leg =
           h\<lparr> num_trades := num_trades h + 1, sell_ida_mw := sell_ida_mw h + position_size,
              pnl_eur := pnl_eur h + position_size * id_price_h row \<rparr>)) \<and>
   (signal row = - 1 \<longrightarrow>
      (\<exists>da_leg id_leg. convert_to_trades s [(idx, row)] = [da_leg, id_leg] \<and>
         price da_leg = da_price row \<and> price id_leg = id_price_h row \<and>
         contains ''_DA_'' (trade_id da_leg) \<and> \<not> contains ''_ID_'' (trade_id da_leg) \<and>
         contains ''_ID_'' (trade_id id_leg) \<and> \<not> contains ''_DA_'' (trade_id id_leg) \<and>
         add_trade h da_leg =
           h\<lparr> num_trades := num_trades h + 1, sell_da_mw := sell_da_mw h + position_size,
              pnl_eur := pnl_eur h + position_size * da_price row \<rparr> \<and>
         add_trade h id_leg =
           h\<lparr> num_trades := num_trades h + 1, buy_ida_mw := buy_ida_mw h + position_size,
              pnl_eur := pnl_eur h - position_size * id_price_h row \<rparr>)) \<and>
   (\<forall>t\<in>set (convert_to_trades s df).
      contains ''_DA_'' (trade_id t) \<noteq> contains ''_ID_'' (trade_id t))"
proof (intro conjI impI)
  assume long: "signal row = 1"
  show "\<exists>da_leg id_leg. convert_to_trades s [(idx, row)] = [da_leg, id_leg] \<and>
         price da_leg = da_price row \<and> price id_leg = id_price_h row \<and>
         contains ''_DA_'' (trade_id da_leg) \<and> \<not> contains ''_ID_'' (trade_id da_leg) \<and>
         contains ''_ID_'' (trade_id id_leg) \<and> \<not> contains ''_DA_'' (trade_id id_leg) \<and>
         add_trade h da_leg =
           h\<lparr> num_trades := num_trades h + 1, buy_da_mw := buy_da_mw h + position_size,
              pnl_eur := pnl_eur h - position_size * da_price row \<rparr> \<and>
         add_trade h id_leg =
           h\<lparr> num_trades := num_trades h + 1, sell_ida_mw := sell_ida_mw h + position_size,
              pnl_eur := pnl_eur h + position_size * id_price_h row \<rparr>"
    unfolding convert_to_trades_single row_trades_long [OF long]
    by (intro exI conjI, rule refl)
       (simp_all only: trade.simps leg_markers add_trade_def Let_def not_False_eq_True,
        simp_all)
next
  assume short: "signal row = - 1"
  show "\<exists>da_leg id_leg. convert_to_trades s [(idx, row)] = [da_leg, id_leg] \<and>
         price da_leg = da_price row \<and> price id_leg = id_price_h row \<and>
         contains ''_DA_'' (trade_id da_leg) \<and> \<not> contains ''_ID_'' (trade_id da_leg) \<and>
         contains ''_ID_'' (trade_id id_leg) \<and> \<not> contains ''_DA_'' (trade_id id_leg) \<and>
         add_trade h da_leg =
           h\<lparr> num_trades := num_trades h + 1, sell_da_mw := sell_da_mw h + position_size,
              pnl_eur := pnl_eur h + position_size * da_price row \<rparr> \<and>
         add_trade h id_leg =
           h\<lparr> num_trades := num_trades h + 1, buy_ida_mw := buy_ida_mw h + position_size,
              pnl_eur := pnl_eur h - position_size * id_price_h row \<rparr>"
    unfolding convert_to_trades_single row_trades_short [OF short]
    by (intro exI conjI, rule refl)
       (simp_all only: trade.simps leg_markers add_trade_def Let_def not_False_eq_True,
        simp_all)
next
  show "\<forall>t\<in>set (convert_to_trades s df).
      contains ''_DA_'' (trade_id t) \<noteq> contains ''_ID_'' (trade_id t)"
    by (rule convert_to_trades_markers)
qed

theorem leg_marker_total_witness:
  "signal \<lparr>timestamp = 1623758400, date = 18793, hour = 12, da_price = 50, id_price_h = 60,
           spread = 10, other_features = [], signal = 1, prob = 0.6\<rparr> = 1 \<and>
   map (\<lambda>t. (contains ''_DA_'' (trade_id t), contains ''_ID_'' (trade_id t),
              buy_da_mw (add_trade empty_hour t), sell_da_mw (add_trade empty_hour t),
              buy_ida_mw (add_trade empty_hour t), sell_ida_mw (add_trade empty_hour t)))
     (convert_to_trades ''ML_Daily_XGBoost''
        [(42, \<lparr>timestamp = 1623758400, date = 18793, hour = 12, da_price = 50, id_price_h = 60,
           spread = 10, other_features = [], signal = 1, prob = 0.6\<rparr>)])
     = [(True, False, 100, 0, 0, 0), (False, True, 0, 0, 0, 100)] \<and>
   signal \<lparr>timestamp = 1623758400, date = 18793, hour = 12, da_price = 50, id_price_h = 40,
           spread = - 10, other_features = [], signal = - 1, prob = 0.4\<rparr> = - 1 \<and>
   map (\<lambda>t. (contains ''_DA_'' (trade_id t), contains ''_ID_'' (trade_id t),
              buy_da_mw (add_trade empty_hour t), sell_da_mw (add_trade empty_hour t),
              buy_ida_mw (add_trade empty_hour t), sell_ida_mw (add_trade empty_hour t)))
     (convert_to_trades ''ML_Daily_XGBoost''
        [(43, \<lparr>timestamp = 1623758400, date = 18793, hour = 12, da_price = 50, id_price_h = 40,
           spread = - 10, other_features = [], signal = - 1, prob = 0.4\<rparr>)])
     = [(True, False, 0, 100, 0, 0), (False, True, 0, 0, 100, 0)]"
  using
    leg_marker_total [of "\<lparr>timestamp = 1623758400, date = 18793, hour = 12, da_price = 50,
      id_price_h = 60, spread = 10, other_features = [], signal = 1, prob = 0.6\<rparr>"
      "''ML_Daily_XGBoost''" 42 empty_hour "[]"]
    leg_marker_total [of "\<lparr>timestamp = 1623758400, date = 18793, hour = 12, da_price = 50,
      id_price_h = 40, spread = - 10, other_features = [], signal = - 1, prob = 0.4\<rparr>"
      "''ML_Daily_XGBoost''" 43 empty_hour "[]"]
  by (auto simp add: position_size_def empty_hour_def)

section \<open>The walk-forward loop\<close>

lemma score_day_result:
  "score_day fit pp df d =
     (if length (train_data df d) < 100 \<or> test_data df d = [] then Inr None
      else Inr (Some (map (score_row (pp (fit (map X_of (train_data df d))
                                            (map y_of (train_data df d))
                                            (projr (time_weights (length (train_data df d)))))))
                        (test_data df d))))"
proof (cases "length (train_data df d) < 100")
  case True
  then show ?thesis by (simp add: score_day_def Let_def)
next
  case False
  then have "0 < length (train_data df d)" by linarith
  from time_weights_defined [OF this] obtain w
    where "time_weights (length (train_data df d)) = Inr w" ..
  with False show ?thesis by (simp add: score_day_def Let_def)
qed

lemma score_day_no_error: "score_day fit pp df d \<noteq> Inl e"
  by (simp add: score_day_result)

lemma walk_forward_result:
  "walk_forward fit pp df acc days =
     Inr (acc @ concat (map (\<lambda>d. case score_day fit pp df d of
                                  Inr (Some rows) \<Rightarrow> [rows] | _ \<Rightarrow> []) days))"
proof (induction days arbitrary: acc)
  case Nil
  then show ?case by simp
next
  case (Cons d days)
  show ?case
  proof (cases "score_day fit pp df d")
    case (Inl e)
    with score_day_no_error show ?thesis by metis
  next
    case (Inr r)
    with Cons.IH show ?thesis
      by (cases r) simp_all
  qed
qed

lemma distinct_unique_days: "distinct (unique_days df)"
  by (simp add: unique_days_def)

lemma set_unique_days: "set (unique_days df) = date ` set df"
  by (simp add: unique_days_def)

lemma test_data_nonempty:
  assumes "d \<in> set (unique_days df)"
  shows "test_data df d \<noteq> []"
proof -
  from assms obtain r where "r \<in> set df" and "date r = d"
    by (auto simp add: set_unique_days)
  then have "r \<in> set (test_data df d)" by (simp add: test_data_def)
  then show ?thesis by auto
qed

lemma concat_pick:
  assumes "distinct days"
  shows "concat (map (\<lambda>d'. if d' = d then g else []) days) = (if d \<in> set days then g else [])"
  using assms by (induction days) auto

lemma signals_for_apply:
  "signals_for (apply_daily_ml_strategy fit pp df) d =
     (if d \<in> set (drop min_train_days (unique_days df)) \<and> 100 \<le> length (train_data df d)
      then map (score_row (pp (fit (map X_of (train_data df d)) (map y_of (train_data df d))
                                  (projr (time_weights (length (train_data df d)))))))
             (test_data df d)
      else [])"
proof -
  define days where "days = drop min_train_days (unique_days df)"
  define G where "G = (\<lambda>d. if length (train_data df d) < 100 then []
      else map (score_row (pp (fit (map X_of (train_data df d)) (map y_of (train_data df d))
                                  (projr (time_weights (length (train_data df d)))))))
             (test_data df d))"
  define F where "F = (\<lambda>d. case score_day fit pp df d of
                                  Inr (Some rows) \<Rightarrow> [rows] | _ \<Rightarrow> [])"
  have F: "concat (F d') = G d'" for d'
    by (simp add: F_def G_def score_day_result)
  have cc: "concat (concat (map F ds)) = concat (map G ds)" for ds
    by (induction ds) (simp_all add: F)
  have dist: "distinct days"
    unfolding days_def by (rule distinct_drop [OF distinct_unique_days])
  have res: "apply_daily_ml_strategy fit pp df =
      (if concat (map F days) = [] then Inl ValueError else Inr (concat (concat (map F days))))"
    by (simp add: apply_daily_ml_strategy_def walk_forward_result days_def F_def)
  have "signals_for (apply_daily_ml_strategy fit pp df) d
      = filter (\<lambda>s. date s = d) (concat (concat (map F days)))"
    by (cases "concat (map F days) = []") (simp_all add: res signals_for_def)
  also have "\<dots> = concat (map (\<lambda>d'. filter (\<lambda>s. date s = d) (G d')) days)"
    by (simp add: cc filter_concat comp_def)
  also have "(\<lambda>d'. filter (\<lambda>s. date s = d) (G d')) = (\<lambda>d'. if d' = d then G d else [])"
  proof (rule ext)
    fix d'
    have "\<forall>s\<in>set (G d'). date s = d'"
      by (auto simp add: G_def score_row_sel test_data_def)
    then show "filter (\<lambda>s. date s = d) (G d') = (if d' = d then G d else [])"
      by (cases "d' = d") (auto simp add: filter_empty_conv)
  qed
  also have "concat (map (\<lambda>d'. if d' = d then G d else []) days)
      = (if d \<in> set days then G d else [])"
    by (rule concat_pick [OF dist])
  finally show ?thesis
    by (simp add: G_def days_def)
qed

lemma gating_iff:
  "signals_for (apply_daily_ml_strategy fit pp df) d \<noteq> [] \<longleftrightarrow>
     d \<in> set (drop min_train_days (unique_days df)) \<and> 100 \<le> length (train_data df d) \<and>
     test_data df d \<noteq> []"
  by (auto simp add: signals_for_apply)

lemma apply_aborts_iff:
  "apply_daily_ml_strategy fit pp df = Inl ValueError \<longleftrightarrow>
     (\<forall>d\<in>set (drop min_train_days (unique_days df)). length (train_data df d) < 100)"
proof -
  have ne: "test_data df d \<noteq> []" if "d \<in> set (drop min_train_days (unique_days df))" for d
    by (rule test_data_nonempty [OF in_set_dropD [OF that]])
  show ?thesis
    using ne
    by (auto simp add: apply_daily_ml_strategy_def walk_forward_result score_day_result
        split: if_splits)
qed

lemma filter_agree:
  assumes "length ys = length xs"
    and "\<forall>i<length xs. (P (ys ! i) \<longleftrightarrow> P (xs ! i)) \<and> (P (xs ! i) \<longrightarrow> ys ! i = xs ! i)"
  shows "filter P ys = filter P xs"
  using assms
proof (induction ys xs rule: list_induct2)
  case Nil
  then show ?case by simp
next
  case (Cons y ys x xs)
  from Cons.prems have hd: "(P y \<longleftrightarrow> P x) \<and> (P x \<longrightarrow> y = x)" by auto
  from Cons.prems have
    "\<forall>i<length xs. (P (ys ! i) \<longleftrightarrow> P (xs ! i)) \<and> (P (xs ! i) \<longrightarrow> ys ! i = xs ! i)"
    by auto
  from Cons.IH [OF this] hd show ?case by auto
qed

lemma mutation_after_day:
  assumes dates: "map date df' = map date df"
    and past: "\<forall>i<length df. date (df ! i) \<le> d \<longrightarrow> df' ! i = df ! i"
  shows "unique_days df' = unique_days df"
    and "train_data df' d = train_data df d"
    and "test_data df' d = test_data df d"
proof -
  show "unique_days df' = unique_days df" by (simp add: unique_days_def dates)
  from dates have len: "length df' = length df" by (rule map_eq_imp_length_eq)
  have dt: "date (df' ! i) = date (df ! i)" if "i < length df" for i
  proof -
    from that len have "date (df' ! i) = map date df' ! i" by simp
    also have "\<dots> = date (df ! i)" using that by (simp add: dates)
    finally show ?thesis .
  qed
  show "train_data df' d = train_data df d"
    unfolding train_data_def using len past dt by (intro filter_agree) auto
  show "test_data df' d = test_data df d"
    unfolding test_data_def using len past dt by (intro filter_agree) auto
qed

text \<open>
  C1 (no lookahead), as the code has it. The rows emitted for a day \<open>d\<close> are the same
  for any two feature tables that have the same dates row by row and the same rows
  wherever the date is at most \<open>d\<close>: the rows dated after \<open>d\<close> may hold anything.
  When rows are emitted for \<open>d\<close>, they are the rows dated \<open>d\<close> scored by the model
  fitted on exactly the rows dated strictly before \<open>d\<close>.
\<close>

theorem no_lookahead:
  assumes "map date df' = map date df"
    and "\<forall>i<length df. date (df ! i) \<le> d \<longrightarrow> df' ! i = df ! i"
  shows "signals_for (apply_daily_ml_strategy fit predict_proba df') d =
         signals_for (apply_daily_ml_strategy fit predict_proba df) d \<and>
     (signals_for (apply_daily_ml_strategy fit predict_proba df) d \<noteq> [] \<longrightarrow>
        (\<exists>w. time_weights (length (filter (\<lambda>r. date r < d) df)) = Inr w \<and>
           signals_for (apply_daily_ml_strategy fit predict_proba df) d =
             map (score_row (predict_proba
                    (fit (map X_of (filter (\<lambda>r. date r < d) df))
                         (map y_of (filter (\<lambda>r. date r < d) df)) w)))
               (filter (\<lambda>r. date r = d) df)))"
proof
  show "signals_for (apply_daily_ml_strategy fit predict_proba df') d =
        signals_for (apply_daily_ml_strategy fit predict_proba df) d"
    by (simp only: signals_for_apply mutation_after_day [OF assms])
  show "signals_for (apply_daily_ml_strategy fit predict_proba df) d \<noteq> [] \<longrightarrow>
        (\<exists>w. time_weights (length (filter (\<lambda>r. date r < d) df)) = Inr w \<and>
           signals_for (apply_daily_ml_strategy fit predict_proba df) d =
             map (score_row (predict_proba
                    (fit (map X_of (filter (\<lambda>r. date r < d) df))
                         (map y_of (filter (\<lambda>r. date r < d) df)) w)))
               (filter (\<lambda>r. date r = d) df))"
  proof
    assume "signals_for (apply_daily_ml_strategy fit predict_proba df) d \<noteq> []"
    then have n: "100 \<le> length (train_data df d)"
      and s: "d \<in> set (drop min_train_days (unique_days df))"
      by (simp_all add: gating_iff)
    from n have "0 < length (train_data df d)" by linarith
    from time_weights_defined [OF this] obtain w
      where w: "time_weights (length (train_data df d)) = Inr w" ..
    with n s have "signals_for (apply_daily_ml_strategy fit predict_proba df) d =
        map (score_row (predict_proba
               (fit (map X_of (train_data df d)) (map y_of (train_data df d)) w)))
          (test_data df d)"
      by (simp add: signals_for_apply)
    with w show "\<exists>w. time_weights (length (filter (\<lambda>r. date r < d) df)) = Inr w \<and>
           signals_for (apply_daily_ml_strategy fit predict_proba df) d =
             map (score_row (predict_proba
                    (fit (map X_of (filter (\<lambda>r. date r < d) df))
                         (map y_of (filter (\<lambda>r. date r < d) df)) w)))
               (filter (\<lambda>r. date r = d) df)"
      unfolding train_data_def test_data_def by blast
  qed
qed

lemma example_day_30:
  "30 \<in> set (drop min_train_days (unique_days example_table))"
  "length (train_data example_table 30) = 120"
  "map (\<lambda>r. (date r, hour r)) (test_data example_table 30) = [(30, 0), (30, 6), (30, 12), (30, 18)]"
  by code_simp+

lemma example_day_30_mutated:
  "30 \<in> set (drop min_train_days
        (unique_days (example_table[120 := (example_table ! 120)\<lparr>hour := 12\<rparr>])))"
  "length (train_data (example_table[120 := (example_table ! 120)\<lparr>hour := 12\<rparr>]) 30) = 120"
  "map (\<lambda>r. (date r, hour r))
     (test_data (example_table[120 := (example_table ! 120)\<lparr>hour := 12\<rparr>]) 30)
     = [(30, 12), (30, 6), (30, 12), (30, 18)]"
  by code_simp+

lemma toy_signals:
  assumes "d \<in> set (drop min_train_days (unique_days df))"
    and "100 \<le> length (train_data df d)"
  shows "map (\<lambda>s. (date s, hour s, signal s, prob s))
           (signals_for (apply_daily_ml_strategy toy_fit toy_predict_proba df) d)
       = map (\<lambda>(dt, h). (dt, h, if real_of_int h < 9 then 1 else - 1,
                                if real_of_int h < 9 then 0.6 else 0.4))
           (map (\<lambda>r. (date r, hour r)) (test_data df d))"
  using assms
  by (simp add: signals_for_apply score_row_sel toy_fit_def toy_predict_proba_def X_of_def
      signal_of_def Let_def)

theorem no_lookahead_witness:
  "date (example_table ! 124) = 31 \<and>
   map date (example_table[124 := (example_table ! 124)
      \<lparr>hour := 12, da_price := 999, other_features := [1]\<rparr>]) = map date example_table \<and>
   signals_for (apply_daily_ml_strategy toy_fit toy_predict_proba
      (example_table[124 := (example_table ! 124)
         \<lparr>hour := 12, da_price := 999, other_features := [1]\<rparr>])) 30 =
   signals_for (apply_daily_ml_strategy toy_fit toy_predict_proba example_table) 30 \<and>
   map (\<lambda>s. (date s, hour s, signal s, prob s))
     (signals_for (apply_daily_ml_strategy toy_fit toy_predict_proba example_table) 30) =
     [(30, 0, 1, 0.6), (30, 6, 1, 0.6), (30, 12, - 1, 0.4), (30, 18, - 1, 0.4)]"
proof -
  let ?df' = "example_table[124 := (example_table ! 124)
      \<lparr>hour := 12, da_price := 999, other_features := [1]\<rparr>]"
  have future: "date (example_table ! 124) = 31" by code_simp
  have dates: "map date ?df' = map date example_table" by code_simp
  have past: "\<forall>i<length example_table. date (example_table ! i) \<le> 30 \<longrightarrow>
      ?df' ! i = example_table ! i"
  proof (intro allI impI)
    fix i assume "date (example_table ! i) \<le> 30"
    with future have "i \<noteq> 124" by auto
    then show "?df' ! i = example_table ! i" by simp
  qed
  have rows: "map (\<lambda>s. (date s, hour s, signal s, prob s))
     (signals_for (apply_daily_ml_strategy toy_fit toy_predict_proba example_table) 30) =
     [(30, 0, 1, 0.6), (30, 6, 1, 0.6), (30, 12, - 1, 0.4), (30, 18, - 1, 0.4)]"
    by (simp add: toy_signals example_day_30)
  from no_lookahead [OF dates past, of toy_fit toy_predict_proba] future dates rows
  show ?thesis by simp
qed

text \<open>
  The rows dated \<open>d\<close> themselves are the rows that are scored: changing the hour of the
  first row of day 30 from 0 to 12 changes the signal emitted for day 30 from
  (hour 0, long, 0.6) to (hour 12, short, 0.4).
\<close>

theorem scored_day_rows_matter_counterexample:
  "date (example_table ! 120) = 30 \<and>
   map date (example_table[120 := (example_table ! 120)\<lparr>hour := 12\<rparr>]) = map date example_table \<and>
   map (\<lambda>s. (date s, hour s, signal s, prob s))
     (signals_for (apply_daily_ml_strategy toy_fit toy_predict_proba example_table) 30) =
     [(30, 0, 1, 0.6), (30, 6, 1, 0.6), (30, 12, - 1, 0.4), (30, 18, - 1, 0.4)] \<and>
   map (\<lambda>s. (date s, hour s, signal s, prob s))
     (signals_for (apply_daily_ml_strategy toy_fit toy_predict_proba
        (example_table[120 := (example_table ! 120)\<lparr>hour := 12\<rparr>])) 30) =
     [(30, 12, - 1, 0.4), (30, 6, 1, 0.6), (30, 12, - 1, 0.4), (30, 18, - 1, 0.4)] \<and>
   signals_for (apply_daily_ml_strategy toy_fit toy_predict_proba
        (example_table[120 := (example_table ! 120)\<lparr>hour := 12\<rparr>])) 30 \<noteq>
   signals_for (apply_daily_ml_strategy toy_fit toy_predict_proba example_table) 30"
proof -
  let ?df' = "example_table[120 := (example_table ! 120)\<lparr>hour := 12\<rparr>]"
  have on_day: "date (example_table ! 120) = 30" by code_simp
  have dates: "map date ?df' = map date example_table" by code_simp
  have a: "map (\<lambda>s. (date s, hour s, signal s, prob s))
     (signals_for (apply_daily_ml_strategy toy_fit toy_predict_proba example_table) 30) =
     [(30, 0, 1, 0.6), (30, 6, 1, 0.6), (30, 12, - 1, 0.4), (30, 18, - 1, 0.4)]"
    by (simp add: toy_signals example_day_30)
  have b: "map (\<lambda>s. (date s, hour s, signal s, prob s))
     (signals_for (apply_daily_ml_strategy toy_fit toy_predict_proba ?df') 30) =
     [(30, 12, - 1, 0.4), (30, 6, 1, 0.6), (30, 12, - 1, 0.4), (30, 18, - 1, 0.4)]"
    by (simp add: toy_signals example_day_30_mutated)
  have "signals_for (apply_daily_ml_strategy toy_fit toy_predict_proba ?df') 30 \<noteq>
      signals_for (apply_daily_ml_strategy toy_fit toy_predict_proba example_table) 30"
  proof
    assume "signals_for (apply_daily_ml_strategy toy_fit toy_predict_proba ?df') 30 =
      signals_for (apply_daily_ml_strategy toy_fit toy_predict_proba example_table) 30"
    with a b show False by simp
  qed
  with on_day dates a b show ?thesis by simp
qed

section \<open>Skipped days\<close>

lemma sample_threshold:
  "length (train_data df d) = 99 \<Longrightarrow> score_day fit pp df d = Inr None"
  "length (train_data df d) = 100 \<Longrightarrow> test_data df d \<noteq> [] \<Longrightarrow>
     \<exists>rows. score_day fit pp df d = Inr (Some rows)"
  by (simp_all add: score_day_result)

lemma skipped_day_emits_nothing:
  assumes "score_day fit pp df d = Inr None"
  shows "signals_for (apply_daily_ml_strategy fit pp df) d = []"
    and "convert_to_trades s
           (zip (map int [0..<length (signals_for (apply_daily_ml_strategy fit pp df) d)])
                (signals_for (apply_daily_ml_strategy fit pp df) d)) = []"
proof -
  from assms have "length (train_data df d) < 100 \<or> test_data df d = []"
    by (simp add: score_day_result split: if_splits)
  then show e: "signals_for (apply_daily_ml_strategy fit pp df) d = []"
    by (auto simp add: signals_for_apply)
  show "convert_to_trades s
           (zip (map int [0..<length (signals_for (apply_daily_ml_strategy fit pp df) d)])
                (signals_for (apply_daily_ml_strategy fit pp df) d)) = []"
    by (simp add: e convert_to_trades_def)
qed

lemma sparse_table_days:
  "drop min_train_days (unique_days sparse_table) = [30]"
  "length (train_data sparse_table 30) = 30"
  "length (test_data sparse_table 30) = 1"
  by code_simp+

text \<open>
  C5 (skip gating), where the code departs from it. On the table of 31 days with one row a
  day, day 30 is the only day beyond the warm-up of 30 days; it has 30 training rows,
  fewer than 100, and is skipped. No frame is collected and the run ends in the
  ValueError of \<open>pd.concat\<close> on an empty list.
\<close>

theorem all_days_skipped_aborts:
  "drop min_train_days (unique_days sparse_table) = [30] \<and>
   length (train_data sparse_table 30) = 30 \<and>
   score_day fit predict_proba sparse_table 30 = Inr None \<and>
   apply_daily_ml_strategy fit predict_proba sparse_table = Inl ValueError"
proof -
  have "score_day fit predict_proba sparse_table 30 = Inr None"
    by (simp add: score_day_result sparse_table_days)
  moreover have "apply_daily_ml_strategy fit predict_proba sparse_table = Inl ValueError"
    by (simp add: apply_aborts_iff sparse_table_days)
  ultimately show ?thesis by (simp add: sparse_table_days)
qed

end
